theory Spec2Isabelle
  imports Main "HOL-Library.AList"
begin

section \<open>Path matching: \<open>matchRoute\<close> (router-utils)\<close>

text \<open>
  A JavaScript string is a \<open>string\<close>; a \<open>Record<string, string>\<close> is an association
  list with pairwise distinct keys, a property assignment \<open>o[k] = v\<close> is
  \<open>AList.update k v o\<close> (a later assignment to the same key replaces the value, a new
  key is appended). The special property name \<open>__proto__\<close> is outside the model.
\<close>

type_synonym jsrecord = "(string \<times> string) list"

text \<open>\<open>s.split(d)\<close> for a one-character separator: never the empty array.\<close>

fun splitChar :: "char \<Rightarrow> string \<Rightarrow> string list" where
  "splitChar d [] = [[]]"
| "splitChar d (c # cs) =
     (if c = d then [] # splitChar d cs
      else (case splitChar d cs of
              [] \<Rightarrow> [[c]]
            | w # ws \<Rightarrow> (c # w) # ws))"

text \<open>\<open>s.replace(/\/+$/, '')\<close>: the string without its trailing slashes.\<close>

definition stripTrailingSlashes :: "string \<Rightarrow> string" where
  "stripTrailingSlashes s = rev (dropWhile (\<lambda>c. c = CHR ''/'') (rev s))"

text \<open>\<open>parts.filter(Boolean)\<close> on an array of strings keeps the non-empty ones.\<close>

definition filterBoolean :: "string list \<Rightarrow> string list" where
  "filterBoolean parts = filter (\<lambda>p. p \<noteq> []) parts"

text \<open>\<open>routePart.startsWith(':')\<close> and \<open>routePart.slice(1)\<close>.\<close>

definition startsWithColon :: "string \<Rightarrow> bool" where
  "startsWithColon routePart = (case routePart of [] \<Rightarrow> False | c # _ \<Rightarrow> c = CHR '':'')"

definition slice1 :: "string \<Rightarrow> string" where
  "slice1 s = drop 1 s"

text \<open>
  The \<open>for\<close> loop of \<open>matchRoute\<close> over the route parts, with the parameter object as
  accumulator. The loop runs only when both arrays have the same length, so the case of a
  missing path part (where JavaScript reads \<open>undefined\<close>) is never reached; there the
  static comparison fails.
\<close>

fun matchParts :: "string list \<Rightarrow> string list \<Rightarrow> jsrecord \<Rightarrow> jsrecord option" where
  "matchParts [] pathParts params = Some params"
| "matchParts (routePart # routeParts) [] params = None"
| "matchParts (routePart # routeParts) (pathPart # pathParts) params =
     (if startsWithColon routePart
      then matchParts routeParts pathParts (AList.update (slice1 routePart) pathPart params)
      else if routePart \<noteq> pathPart then None
      else matchParts routeParts pathParts params)"

definition matchRoute :: "string \<Rightarrow> string \<Rightarrow> jsrecord option" where
  "matchRoute path routePath =
     (let pathWithoutQuery = hd (splitChar CHR ''?'' path);
          cleanPath = stripTrailingSlashes pathWithoutQuery;
          cleanRoutePath = stripTrailingSlashes routePath
      in if cleanPath = [] \<and> cleanRoutePath = [] then Some []
         else
           let pathParts = filterBoolean (splitChar CHR ''/'' cleanPath);
               routeParts = filterBoolean (splitChar CHR ''/'' cleanRoutePath)
           in if length pathParts \<noteq> length routeParts then None
              else matchParts routeParts pathParts [])"

subsection \<open>The reference algorithm of the specification\<close>










section \<open>Values, requests, responses and thrown values\<close>

text \<open>
  Values that cross the dispatcher (parsed bodies, validator inputs and outputs,
  authentication payloads, the data handed to \<open>JSON.stringify\<close>) are JSON-like values.
\<close>

datatype json =
    JNull
  | JBool bool
  | JNum int
  | JStr string
  | JArr "json list"
  | JObj "(string \<times> json) list"

datatype facet = Params | Query | Headers | Body

text \<open>\<open>ValidationErrorItem\<close>: \<open>{ type, messages }\<close>.\<close>

datatype validationErrorItem = ValidationErrorItem (itemType: facet) (messages: "string list")

text \<open>
  What a JavaScript \<open>throw\<close> can carry: an \<open>Error\<close> with its message, the
  \<open>ValidationFailedError\<close> subclass with its list of items, or a value that is not an
  \<open>Error\<close>, given by the text that \<open>String(value)\<close> yields.
\<close>

datatype thrown =
    Error string
  | ValidationFailedError "validationErrorItem list"
  | NonError string

text \<open>\<open>err instanceof Error ? err.message : String(err)\<close>.\<close>

fun errorMessage :: "thrown \<Rightarrow> string" where
  "errorMessage (Error m) = m"
| "errorMessage (ValidationFailedError items) = ''Validation failed''"
| "errorMessage (NonError s) = s"

text \<open>\<open>error instanceof Error ? error : new Error(String(error))\<close>.\<close>

fun toError :: "thrown \<Rightarrow> thrown" where
  "toError (NonError s) = Error s"
| "toError e = e"

text \<open>
  A request as the dispatcher reads it: method, the \<open>pathname\<close> and the
  \<open>searchParams\<close> entries of \<open>new URL(req.url)\<close>, the header entries (names in lower
  case, as \<open>Headers\<close> keeps them), the body text (\<open>None\<close> for a request without a
  body) with what \<open>JSON.parse\<close> makes of it (\<open>None\<close> when there is no body or it is
  not JSON), whether the body stream has been read, and the \<open>auth\<close> attachment of
  \<open>RequestWithData\<close>.
\<close>

record request =
  reqMethod :: string
  reqPathname :: string
  reqSearchParams :: "(string \<times> string) list"
  reqHeaders :: "(string \<times> string) list"
  reqBody :: "string option"
  reqBodyJson :: "json option"
  reqBodyUsed :: bool
  reqAuth :: "json option"

datatype responseBody = BodyText string | BodyJson json

text \<open>
  A response; \<open>BodyJson v\<close> is the body text \<open>JSON.stringify(v)\<close>. Header names are in
  lower case.
\<close>

record response =
  status :: nat
  resHeaders :: "(string \<times> string) list"
  resBody :: responseBody

subsection \<open>Reading a request body\<close>

text \<open>
  \<open>req.clone()\<close> fails on a request whose body has been read and otherwise gives a copy
  with a body stream of its own; \<open>req.json()\<close> and \<open>req.text()\<close> read the stream of the
  request they are called on, once, and leave it used (a request without a body has no
  stream to use up). Each returns the state of that request afterwards. The messages of
  the platform's errors are fixed texts here.
\<close>

definition bodyText :: "request \<Rightarrow> string" where
  "bodyText req = (case reqBody req of None \<Rightarrow> [] | Some t \<Rightarrow> t)"

definition consumed :: "request \<Rightarrow> request" where
  "consumed req = (case reqBody req of None \<Rightarrow> req | Some t \<Rightarrow> req\<lparr>reqBodyUsed := True\<rparr>)"

definition clone :: "request \<Rightarrow> thrown + request" where
  "clone req =
     (if reqBodyUsed req then Inl (Error ''Body already used'') else Inr req)"

definition readJson :: "request \<Rightarrow> (thrown + json) \<times> request" where
  "readJson req =
     (if reqBodyUsed req then (Inl (Error ''Body already used''), req)
      else (case reqBodyJson req of
              None \<Rightarrow> (Inl (Error ''JSON Parse error''), consumed req)
            | Some v \<Rightarrow> (Inr v, consumed req)))"

definition readText :: "request \<Rightarrow> (thrown + string) \<times> request" where
  "readText req =
     (if reqBodyUsed req then (Inl (Error ''Body already used''), req)
      else (Inr (bodyText req), consumed req))"

text \<open>\<open>req.clone().json()\<close> and \<open>req.clone().text()\<close>: the clone's state is dropped.\<close>

definition cloneJson :: "request \<Rightarrow> thrown + json" where
  "cloneJson req = (case clone req of Inl e \<Rightarrow> Inl e | Inr c \<Rightarrow> fst (readJson c))"

definition cloneText :: "request \<Rightarrow> thrown + string" where
  "cloneText req = (case clone req of Inl e \<Rightarrow> Inl e | Inr c \<Rightarrow> fst (readText c))"

text \<open>\<open>req.headers.get(name)\<close>, \<open>s.startsWith(p)\<close>, \<open>s.includes(p)\<close>.\<close>

definition headersGet :: "(string \<times> string) list \<Rightarrow> string \<Rightarrow> string option" where
  "headersGet hs name = map_of hs name"

definition startsWith :: "string \<Rightarrow> string \<Rightarrow> bool" where
  "startsWith s p = (take (length p) s = p)"

fun stringIncludes :: "string \<Rightarrow> string \<Rightarrow> bool" where
  "stringIncludes [] p = (p = [])"
| "stringIncludes (c # cs) p = (startsWith (c # cs) p \<or> stringIncludes cs p)"

text \<open>\<open>Object.fromEntries(entries)\<close> and a string record as a value.\<close>

definition fromEntries :: "(string \<times> string) list \<Rightarrow> jsrecord" where
  "fromEntries es = foldl (\<lambda>obj (k, v). AList.update k v obj) [] es"

definition recordJson :: "jsrecord \<Rightarrow> json" where
  "recordJson r = JObj (map (\<lambda>(k, v). (k, JStr v)) r)"

section \<open>Calls and their log\<close>

text \<open>
  The dispatcher calls functions it is given: plugin hooks, middleware, verify steps, error
  mappers, validators, handlers. Such a function may throw, so it returns \<open>thrown + 'a\<close>.
  Every call the dispatcher makes is written to a log, in order; a plugin is named by its
  \<open>name\<close> field, and every other function carries a label that stands for its identity.
  A computation of the dispatcher is its outcome together with the log of its calls.
\<close>

datatype hookKind =
  OnInit | OnBeforeRouteRegister | OnAfterRouteRegister | OnRequest | OnError | OnResponse

datatype event =
    PluginHook string hookKind
  | MwCall string
  | RouteLookup
  | VerifyCall string
  | AuthErrorMapper string
  | ValidateRequest
  | ValidatorCall facet
  | HandlerCall string
  | RouterOnError

type_synonym 'a run = "(thrown + 'a) \<times> event list"

definition ret :: "'a \<Rightarrow> 'a run" where
  "ret x = (Inr x, [])"

definition throw :: "thrown \<Rightarrow> 'a run" where
  "throw e = (Inl e, [])"

text \<open>A call: the outcome of the function, logged as one event.\<close>

definition call :: "event \<Rightarrow> thrown + 'a \<Rightarrow> 'a run" where
  "call ev outcome = (outcome, [ev])"

text \<open>\<open>await m\<close> followed by the rest of the function body.\<close>

definition bind :: "'a run \<Rightarrow> ('a \<Rightarrow> 'b run) \<Rightarrow> 'b run" where
  "bind m f =
     (case m of
        (Inl e, t) \<Rightarrow> (Inl e, t)
      | (Inr x, t) \<Rightarrow> (case f x of (r, t') \<Rightarrow> (r, t @ t')))"

text \<open>\<open>try { m } catch (e) { h e }\<close>.\<close>

definition catch :: "'a run \<Rightarrow> (thrown \<Rightarrow> 'a run) \<Rightarrow> 'a run" where
  "catch m h =
     (case m of
        (Inl e, t) \<Rightarrow> (case h e of (r, t') \<Rightarrow> (r, t @ t'))
      | (Inr x, t) \<Rightarrow> (Inr x, t))"

text \<open>A computation that makes no call.\<close>

definition lift :: "thrown + 'a \<Rightarrow> 'a run" where
  "lift outcome = (outcome, [])"

section \<open>The validation engine: \<open>validateRequest\<close> (router-utils)\<close>

text \<open>
  \<open>RouterValidator\<close>: a function, or an object that should have a \<open>parse\<close> method.
  \<open>callValidator\<close> throws for an object without one.
\<close>

datatype validator =
    VFunction "json \<Rightarrow> thrown + json"
  | VObject "(json \<Rightarrow> thrown + json) option"

fun callValidator :: "validator \<Rightarrow> json \<Rightarrow> thrown + json" where
  "callValidator (VFunction f) input = f input"
| "callValidator (VObject (Some parse)) input = parse input"
| "callValidator (VObject None) input =
     Inl (Error ''Invalid validator - must be function or object with parse method'')"

record validationSchema =
  schemaParams :: "validator option"
  schemaQuery :: "validator option"
  schemaHeaders :: "validator option"
  schemaBody :: "validator option"

text \<open>\<open>validation?.params\<close> and its siblings, on an optional schema.\<close>

definition optParams :: "validationSchema option \<Rightarrow> validator option" where
  "optParams validation = (case validation of None \<Rightarrow> None | Some s \<Rightarrow> schemaParams s)"

definition optQuery :: "validationSchema option \<Rightarrow> validator option" where
  "optQuery validation = (case validation of None \<Rightarrow> None | Some s \<Rightarrow> schemaQuery s)"

definition optHeaders :: "validationSchema option \<Rightarrow> validator option" where
  "optHeaders validation = (case validation of None \<Rightarrow> None | Some s \<Rightarrow> schemaHeaders s)"

definition optBody :: "validationSchema option \<Rightarrow> validator option" where
  "optBody validation = (case validation of None \<Rightarrow> None | Some s \<Rightarrow> schemaBody s)"

text \<open>\<open>ValidatedData\<close>; the body is \<open>None\<close> while it is \<open>undefined\<close>.\<close>

record validatedData =
  dataParams :: json
  dataQuery :: json
  dataHeaders :: json
  dataBody :: "json option"

text \<open>
  The local variables of \<open>validateRequest\<close>: \<open>parsedData\<close>, \<open>errors\<close>, and the log of the
  validator calls made so far.
\<close>

record vstate =
  parsedData :: validatedData
  errors :: "validationErrorItem list"
  calls :: "event list"

definition pushError :: "facet \<Rightarrow> string \<Rightarrow> vstate \<Rightarrow> vstate" where
  "pushError f msg st = st\<lparr>errors := errors st @ [ValidationErrorItem f [msg]]\<rparr>"

definition logCall :: "facet \<Rightarrow> vstate \<Rightarrow> vstate" where
  "logCall f st = st\<lparr>calls := calls st @ [ValidatorCall f]\<rparr>"

definition validateParams :: "jsrecord \<Rightarrow> validationSchema option \<Rightarrow> vstate \<Rightarrow> vstate" where
  "validateParams params validation st =
     (case optParams validation of
        None \<Rightarrow> st
      | Some v \<Rightarrow>
          (case callValidator v (recordJson params) of
             Inr x \<Rightarrow> (logCall Params st)\<lparr>parsedData := (parsedData st)\<lparr>dataParams := x\<rparr>\<rparr>
           | Inl err \<Rightarrow> pushError Params (errorMessage err) (logCall Params st)))"

definition validateQuery :: "request \<Rightarrow> validationSchema option \<Rightarrow> vstate \<Rightarrow> vstate" where
  "validateQuery req validation st =
     (case optQuery validation of
        None \<Rightarrow>
          st\<lparr>parsedData :=
               (parsedData st)\<lparr>dataQuery := recordJson (fromEntries (reqSearchParams req))\<rparr>\<rparr>
      | Some v \<Rightarrow>
          (let queryEntries = fromEntries (reqSearchParams req)
           in case callValidator v (recordJson queryEntries) of
                Inr x \<Rightarrow> (logCall Query st)\<lparr>parsedData := (parsedData st)\<lparr>dataQuery := x\<rparr>\<rparr>
              | Inl err \<Rightarrow> pushError Query (errorMessage err) (logCall Query st)))"

definition validateHeaders :: "request \<Rightarrow> validationSchema option \<Rightarrow> vstate \<Rightarrow> vstate" where
  "validateHeaders req validation st =
     (let hdrs = fromEntries (reqHeaders req)
      in case optHeaders validation of
           None \<Rightarrow> st\<lparr>parsedData := (parsedData st)\<lparr>dataHeaders := recordJson hdrs\<rparr>\<rparr>
         | Some v \<Rightarrow>
             (case callValidator v (recordJson hdrs) of
                Inr x \<Rightarrow> (logCall Headers st)\<lparr>parsedData := (parsedData st)\<lparr>dataHeaders := x\<rparr>\<rparr>
              | Inl err \<Rightarrow> pushError Headers (errorMessage err) (logCall Headers st)))"

text \<open>The inner \<open>try\<close> around the body validator.\<close>

definition validateBodyData :: "validator \<Rightarrow> json \<Rightarrow> vstate \<Rightarrow> vstate" where
  "validateBodyData v bodyData st =
     (case callValidator v bodyData of
        Inr x \<Rightarrow> (logCall Body st)\<lparr>parsedData := (parsedData st)\<lparr>dataBody := Some x\<rparr>\<rparr>
      | Inl err \<Rightarrow> pushError Body (errorMessage err) (logCall Body st))"

text \<open>
  The body of the outer \<open>try\<close> of the body facet: the exception that leaves it, if any,
  and the variables afterwards. A failed \<open>req.clone().json()\<close> records the body failure and
  throws \<open>ValidationFailedError\<close>; a failed \<open>req.clone().text()\<close> throws what it throws.
\<close>

definition validateBodyTry :: "request \<Rightarrow> validator \<Rightarrow> vstate \<Rightarrow> thrown option \<times> vstate" where
  "validateBodyTry req v st =
     (let contentType = (case headersGet (reqHeaders req) ''content-type'' of
                           None \<Rightarrow> [] | Some c \<Rightarrow> c)
      in if stringIncludes contentType ''application/json''
         then (case cloneJson req of
                 Inl err \<Rightarrow>
                   (let st' = pushError Body ''Invalid JSON in request body'' st
                    in (Some (ValidationFailedError (errors st')), st'))
               | Inr bodyData \<Rightarrow> (None, validateBodyData v bodyData st))
         else (case cloneText req of
                 Inl err \<Rightarrow> (Some err, st)
               | Inr bodyData \<Rightarrow> (None, validateBodyData v (JStr bodyData) st)))"

text \<open>The body facet with its outer \<open>catch\<close>.\<close>

definition validateBody :: "request \<Rightarrow> validationSchema option \<Rightarrow> vstate \<Rightarrow> vstate" where
  "validateBody req validation st =
     (case optBody validation of
        None \<Rightarrow> st
      | Some v \<Rightarrow>
          (case validateBodyTry req v st of
             (None, st') \<Rightarrow> st'
           | (Some err, st') \<Rightarrow>
               (if \<not> list_ex (\<lambda>e. itemType e = Body) (errors st')
                then pushError Body (errorMessage err) st'
                else st')))"

text \<open>
  \<open>validateRequest\<close> (part_009, line 416). The result is the outcome with the log of the
  calls, and the state of the request \<open>req\<close> when the function is left.
\<close>

definition validateRequest ::
  "request \<Rightarrow> jsrecord \<Rightarrow> validationSchema option \<Rightarrow> validatedData run \<times> request" where
  "validateRequest req params validation =
     (let st0 = \<lparr>parsedData = \<lparr>dataParams = recordJson params, dataQuery = JObj [],
                                dataHeaders = JObj [], dataBody = None\<rparr>,
                 errors = [], calls = [ValidateRequest]\<rparr>;
          st1 = validateParams params validation st0;
          st2 = validateQuery req validation st1;
          st3 = validateHeaders req validation st2;
          st4 = validateBody req validation st3
      in ((if errors st4 \<noteq> [] then Inl (ValidationFailedError (errors st4))
           else Inr (parsedData st4), calls st4), req))"

section \<open>Route configuration\<close>

text \<open>A function the dispatcher is given, with the label its calls are logged under.\<close>

type_synonym middleware = "string \<times> (request \<Rightarrow> thrown + response option)"

type_synonym handler = "string \<times> (request \<times> validatedData \<Rightarrow> thrown + response)"

text \<open>
  \<open>AuthConfig\<close> and \<open>AuthMiddlewareConfig\<close> have the same shape: a \<open>verify\<close> function
  and an optional \<open>onError\<close> mapper.
\<close>

record authConfig =
  verify :: "string \<times> (request \<Rightarrow> thrown + json)"
  authOnError :: "(string \<times> (thrown \<Rightarrow> thrown + response)) option"

text \<open>The \<open>auth\<close> option of a route: absent, a boolean, or a config object.\<close>

datatype authOption = AuthAbsent | AuthBool bool | AuthObject authConfig

fun truthy :: "authOption \<Rightarrow> bool" where
  "truthy AuthAbsent = False"
| "truthy (AuthBool b) = b"
| "truthy (AuthObject c) = True"

record routeConfig =
  auth :: authOption
  validation :: "validationSchema option"
  middleware :: "middleware list option"

section \<open>The authentication handler: \<open>AuthHandler\<close> (auth-handler)\<close>

record authHandler =
  config :: "authConfig option"

definition misconfiguredRes :: response where
  "misconfiguredRes =
     \<lparr>status = 500, resHeaders = [(''content-type'', ''application/json'')],
      resBody = BodyJson (JObj
        [(''error'', JStr ''Authentication configuration error''),
         (''message'', JStr ''Authentication is required but no auth config was provided'')])\<rparr>"

definition authFailedRes :: "thrown \<Rightarrow> response" where
  "authFailedRes err =
     \<lparr>status = 401, resHeaders = [(''content-type'', ''application/json'')],
      resBody = BodyJson (JObj
        [(''error'', JStr ''Authentication failed''),
         (''message'', JStr (errorMessage err))])\<rparr>"

text \<open>
  The mapper \<open>handleAuth\<close> picks in its \<open>catch\<close>:
  \<open>typeof authConfig === 'object' ? authConfig.onError || this.config.onError
   : this.config.onError\<close>.
\<close>

definition errorHandlerOf ::
  "authOption \<Rightarrow> authConfig \<Rightarrow> (string \<times> (thrown \<Rightarrow> thrown + response)) option" where
  "errorHandlerOf authConfig thisConfig =
     (case authConfig of
        AuthObject a \<Rightarrow> (case authOnError a of Some h \<Rightarrow> Some h | None \<Rightarrow> authOnError thisConfig)
      | _ \<Rightarrow> authOnError thisConfig)"

text \<open>
  \<open>AuthHandler.handleAuth\<close> (part_002, line 23): the pair of \<open>response\<close> and \<open>authData\<close>.
\<close>

definition handleAuth ::
  "authHandler \<Rightarrow> request \<Rightarrow> authOption \<Rightarrow> (response option \<times> json option) run" where
  "handleAuth this req authConfig =
     (if \<not> truthy authConfig then ret (None, None)
      else case config this of
        None \<Rightarrow> ret (Some misconfiguredRes, None)
      | Some thisConfig \<Rightarrow>
          catch
            (let verifyFn = (case authConfig of AuthObject a \<Rightarrow> verify a
                             | _ \<Rightarrow> verify thisConfig)
             in bind (call (VerifyCall (fst verifyFn)) (snd verifyFn req))
                  (\<lambda>authData. ret (None, Some authData)))
            (\<lambda>error.
               let errorHandler = errorHandlerOf authConfig thisConfig;
                   err = toError error
               in case errorHandler of
                    Some h \<Rightarrow> bind (call (AuthErrorMapper (fst h)) (snd h err))
                                (\<lambda>r. ret (Some r, None))
                  | None \<Rightarrow> ret (Some (authFailedRes err), None)))"

text \<open>
  The 400 response built from a \<open>ValidationFailedError\<close>, with the \<open>details\<close> of part_008
  (line 215) and part_002 (line 98): one object with \<open>type\<close> and \<open>messages\<close> for each
  failing facet. router.ts (line 217) writes the same response for the items of the
  earlier validation engine, with \<open>errors\<close> (path and message of each issue) in the place
  of \<open>messages\<close>; status, headers and the \<open>error\<close> field do not differ.
\<close>

definition detailsJson :: "validationErrorItem list \<Rightarrow> json" where
  "detailsJson items =
     JArr (map (\<lambda>e. JObj [(''type'', JStr (case itemType e of
                                 Params \<Rightarrow> ''params'' | Query \<Rightarrow> ''query''
                               | Headers \<Rightarrow> ''headers'' | Body \<Rightarrow> ''body'')),
                           (''messages'', JArr (map JStr (messages e)))]) items)"

definition buildValidationErrorRes :: "validationErrorItem list \<Rightarrow> response" where
  "buildValidationErrorRes items =
     \<lparr>status = 400, resHeaders = [(''content-type'', ''application/json'')],
      resBody = BodyJson (JObj [(''error'', JStr ''Validation failed''),
                                (''details'', detailsJson items)])\<rparr>"

text \<open>
  \<open>try { data = await validateRequest(req, params, validation); return handler(hreq, data) }
   catch (e) { if (e instanceof ValidationFailedError) return the 400 response; throw e }\<close>,
  the block that \<open>runAuth\<close>, \<open>authenticateRequest\<close> and \<open>runValidationAndHandle\<close> share;
  \<open>hreq\<close> is the request object the handler receives. What the handler throws is
  taken as thrown inside the \<open>try\<close> (where the source returns the handler's promise
  without awaiting it, a rejection that is a \<open>ValidationFailedError\<close> would pass the
  \<open>catch\<close> unchanged).
\<close>

definition validateAndHandle ::
  "request \<Rightarrow> (request \<Rightarrow> request) \<Rightarrow> jsrecord \<Rightarrow> validationSchema option \<Rightarrow> handler
     \<Rightarrow> response run" where
  "validateAndHandle req hreq params schema h =
     catch
       (case validateRequest req params schema of
          (validated, req') \<Rightarrow>
            bind validated (\<lambda>data. call (HandlerCall (fst h)) (snd h (hreq req', data))))
       (\<lambda>e. case e of
               ValidationFailedError items \<Rightarrow> ret (buildValidationErrorRes items)
             | _ \<Rightarrow> throw e)"

text \<open>
  \<open>AuthHandler.authenticateRequest\<close> (part_002, line 72): a temporary handler holding the
  route's config, asked with \<open>true\<close>; then the clone with the payload attached, validation
  and the route handler. The \<open>verify\<close> of the temporary handler is a function that calls
  \<open>authConfig.verify\<close> on its argument, written here as the update of the field by its own
  value.
\<close>

definition authenticateRequest ::
  "authHandler \<Rightarrow> request \<Rightarrow> authConfig \<Rightarrow> jsrecord \<Rightarrow> validationSchema option \<Rightarrow> handler
     \<Rightarrow> response run" where
  "authenticateRequest this req authConfig params schema h =
     (let tempHandler = \<lparr>config = Some (authConfig\<lparr>verify := verify authConfig\<rparr>)\<rparr>
      in bind (handleAuth tempHandler req (AuthBool True))
           (\<lambda>(authResponse, authData).
              case authResponse of
                Some r \<Rightarrow> ret r
              | None \<Rightarrow>
                  bind (lift (clone req))
                    (\<lambda>c. let authedReq = c\<lparr>reqAuth := authData\<rparr>
                         in validateAndHandle req (\<lambda>_. authedReq) params schema h)))"

section \<open>The dispatcher: \<open>Router\<close> (router.ts)\<close>

text \<open>
  What a before-route-register hook may return: nothing, a \<open>Response\<close>, or an object with
  an optional replacement config and an optional replacement handler.
\<close>

datatype hookResult =
    Void
  | Resp response
  | Rewrite "routeConfig option" "handler option"

text \<open>
  \<open>RouterPlugin\<close>: a name and six optional hooks. The router instance that a hook
  receives as first argument is not passed in the model. A before-route-register hook
  receives method, path, config and the handler where the caller passes one.
\<close>

record plugin =
  pluginName :: string
  onInit :: "(unit \<Rightarrow> thrown + unit) option"
  onBeforeRouteRegister ::
    "(string \<times> string \<times> routeConfig \<times> handler option \<Rightarrow> thrown + hookResult) option"
  onAfterRouteRegister ::
    "(string \<times> string \<times> routeConfig \<Rightarrow> thrown + response option) option"
  onRequest :: "(request \<Rightarrow> thrown + response option) option"
  onError :: "(thrown \<times> request \<Rightarrow> thrown + response option) option"
  onResponse :: "(request \<times> response \<Rightarrow> thrown + response option) option"

text \<open>
  The \<open>wrapped\<close> closure a route stores as its handler: it keeps the config and the
  handler of the registration and calls \<open>runAuth\<close> (router.ts) or
  \<open>runValidationAndHandle\<close> (part_008) with them when the route is dispatched.
\<close>

datatype wrapped =
    RunAuth routeConfig handler
  | RunValidationAndHandle routeConfig handler

record route =
  routePath :: string
  routeMethod :: string
  routeHandler :: wrapped
  routeMiddleware :: "middleware list option"

record router =
  routes :: "route list"
  globalMws :: "middleware list"
  pathMws :: "(string \<times> middleware list) list"
  authHandler :: "authHandler option"
  routerOnError :: "(thrown \<times> request \<Rightarrow> thrown + response) option"
  plugins :: "plugin list"

record routerOptions =
  optAuth :: "authConfig option"
  optOnError :: "(thrown \<times> request \<Rightarrow> thrown + response) option"

text \<open>\<open>new Router(opts)\<close>.\<close>

definition newRouter :: "routerOptions option \<Rightarrow> router" where
  "newRouter opts =
     \<lparr>routes = [], globalMws = [], pathMws = [],
      authHandler = (case opts of None \<Rightarrow> None
                     | Some p \<Rightarrow> (case optAuth p of None \<Rightarrow> None
                                  | Some a \<Rightarrow> Some \<lparr>config = Some a\<rparr>)),
      routerOnError = (case opts of None \<Rightarrow> None | Some p \<Rightarrow> optOnError p),
      plugins = []\<rparr>"

text \<open>\<open>registerPlugin\<close>: the plugin is stored before its init hook runs.\<close>

definition registerPlugin :: "router \<Rightarrow> plugin \<Rightarrow> unit run \<times> router" where
  "registerPlugin this p =
     (let this' = this\<lparr>plugins := plugins this @ [p]\<rparr>
      in ((case onInit p of
             None \<Rightarrow> ret ()
           | Some hook \<Rightarrow> call (PluginHook (pluginName p) OnInit) (hook ())), this'))"

text \<open>
  \<open>runPluginHook\<close>: the hook \<open>sel\<close> of every plugin in turn, until one returns a
  \<open>Response\<close> (\<open>asResponse\<close> is the \<open>instanceof Response\<close> test on the result).
\<close>

fun runPluginHook ::
  "(plugin \<Rightarrow> ('a \<Rightarrow> thrown + 'r) option) \<Rightarrow> ('r \<Rightarrow> response option) \<Rightarrow> hookKind
     \<Rightarrow> plugin list \<Rightarrow> 'a \<Rightarrow> response option run" where
  "runPluginHook sel asResponse kind [] args = ret None"
| "runPluginHook sel asResponse kind (p # ps) args =
     (case sel p of
        None \<Rightarrow> runPluginHook sel asResponse kind ps args
      | Some hook \<Rightarrow>
          bind (call (PluginHook (pluginName p) kind) (hook args))
            (\<lambda>result. case asResponse result of
                         Some r \<Rightarrow> ret (Some r)
                       | None \<Rightarrow> runPluginHook sel asResponse kind ps args))"

fun hookResponse :: "hookResult \<Rightarrow> response option" where
  "hookResponse (Resp r) = Some r"
| "hookResponse _ = None"

text \<open>\<open>use(mw, path)\<close>: an absent or empty path registers a global middleware.\<close>

definition use :: "router \<Rightarrow> middleware \<Rightarrow> string option \<Rightarrow> router" where
  "use this mw path =
     (case path of
        Some p \<Rightarrow>
          (if p \<noteq> [] then
             (let arr = (case map_of (pathMws this) p of None \<Rightarrow> [] | Some a \<Rightarrow> a)
              in this\<lparr>pathMws := AList.update p (arr @ [mw]) (pathMws this)\<rparr>)
           else this\<lparr>globalMws := globalMws this @ [mw]\<rparr>)
      | None \<Rightarrow> this\<lparr>globalMws := globalMws this @ [mw]\<rparr>)"

definition configureAuth :: "router \<Rightarrow> authConfig \<Rightarrow> router" where
  "configureAuth this cfg =
     (case authHandler this of
        None \<Rightarrow> this\<lparr>authHandler := Some \<lparr>config = Some cfg\<rparr>\<rparr>
      | Some ah \<Rightarrow> this\<lparr>authHandler := Some (ah\<lparr>config := Some cfg\<rparr>)\<rparr>)"

text \<open>
  \<open>addRoute\<close> of router.ts (line 71): the before hooks see method, path and config; what
  they return is not used, except that a \<open>Response\<close> ends the round of hooks. The route
  stored holds the config and the handler of the call. The router is returned as it is
  when the function is left, also when a hook throws.
\<close>

definition addRoute ::
  "router \<Rightarrow> string \<Rightarrow> string \<Rightarrow> routeConfig \<Rightarrow> handler \<Rightarrow> unit run \<times> router" where
  "addRoute this method path opts h =
     (case runPluginHook onBeforeRouteRegister hookResponse OnBeforeRouteRegister
             (plugins this) (method, path, opts, None) of
        (Inl e, t) \<Rightarrow> ((Inl e, t), this)
      | (Inr _, t) \<Rightarrow>
          (let this' = this\<lparr>routes := routes this @
                         [\<lparr>routePath = path, routeMethod = method,
                           routeHandler = RunAuth opts h,
                           routeMiddleware = middleware opts\<rparr>]\<rparr>
           in (bind (Inr (), t)
                 (\<lambda>_. bind (runPluginHook onAfterRouteRegister id OnAfterRouteRegister
                              (plugins this') (method, path, opts))
                         (\<lambda>_. ret ())), this')))"

text \<open>
  \<open>addRoute\<close> of part_008 (line 66): the loop over the plugins with the variables
  \<open>finalOpts\<close> and \<open>finalHandler\<close>, then the route built from their last values.
\<close>

fun beforeRouteRegisterLoop ::
  "plugin list \<Rightarrow> string \<Rightarrow> string \<Rightarrow> routeConfig \<Rightarrow> handler \<Rightarrow> (routeConfig \<times> handler) run"
  where
  "beforeRouteRegisterLoop [] method path finalOpts finalHandler = ret (finalOpts, finalHandler)"
| "beforeRouteRegisterLoop (p # ps) method path finalOpts finalHandler =
     (case onBeforeRouteRegister p of
        None \<Rightarrow> beforeRouteRegisterLoop ps method path finalOpts finalHandler
      | Some hook \<Rightarrow>
          bind (call (PluginHook (pluginName p) OnBeforeRouteRegister)
                  (hook (method, path, finalOpts, Some finalHandler)))
            (\<lambda>result. case result of
                 Rewrite newOpts newHandler \<Rightarrow>
                   beforeRouteRegisterLoop ps method path
                     (case newOpts of Some opts' \<Rightarrow> opts' | None \<Rightarrow> finalOpts)
                     (case newHandler of Some h' \<Rightarrow> h' | None \<Rightarrow> finalHandler)
               | _ \<Rightarrow> beforeRouteRegisterLoop ps method path finalOpts finalHandler))"

definition addRoute_chained ::
  "router \<Rightarrow> string \<Rightarrow> string \<Rightarrow> routeConfig \<Rightarrow> handler \<Rightarrow> unit run \<times> router" where
  "addRoute_chained this method path opts h =
     (case beforeRouteRegisterLoop (plugins this) method path opts h of
        (Inl e, t) \<Rightarrow> ((Inl e, t), this)
      | (Inr (finalOpts, finalHandler), t) \<Rightarrow>
          (let this' = this\<lparr>routes := routes this @
                         [\<lparr>routePath = path, routeMethod = method,
                           routeHandler = RunValidationAndHandle finalOpts finalHandler,
                           routeMiddleware = middleware finalOpts\<rparr>]\<rparr>
           in (bind (Inr (), t)
                 (\<lambda>_. bind (runPluginHook onAfterRouteRegister id OnAfterRouteRegister
                              (plugins this') (method, path, finalOpts))
                         (\<lambda>_. ret ())), this')))"

text \<open>\<open>runPluginResponseHook\<close>: every on-response hook in turn, on the current response.\<close>

fun runPluginResponseHook :: "plugin list \<Rightarrow> request \<Rightarrow> response \<Rightarrow> response run" where
  "runPluginResponseHook [] req res = ret res"
| "runPluginResponseHook (p # ps) req res =
     (case onResponse p of
        None \<Rightarrow> runPluginResponseHook ps req res
      | Some hook \<Rightarrow>
          bind (call (PluginHook (pluginName p) OnResponse) (hook (req, res)))
            (\<lambda>result. case result of
                         Some r \<Rightarrow> runPluginResponseHook ps req r
                       | None \<Rightarrow> runPluginResponseHook ps req res))"

fun matchRouteHandler :: "route list \<Rightarrow> string \<Rightarrow> string \<Rightarrow> (route \<times> jsrecord) option" where
  "matchRouteHandler [] method path = None"
| "matchRouteHandler (r # rs) method path =
     (if routeMethod r \<noteq> method then matchRouteHandler rs method path
      else (case matchRoute path (routePath r) of
              Some params \<Rightarrow> Some (r, params)
            | None \<Rightarrow> matchRouteHandler rs method path))"

text \<open>
  \<open>runAuth\<close> (router.ts, line 156). \<open>authenticateRequest\<close> returns a \<open>Response\<close> whenever it
  returns, so the \<open>throw new Error('Authentication failed')\<close> after its call has no run
  that reaches it and no branch here.
\<close>

definition runAuth ::
  "router \<Rightarrow> request \<Rightarrow> jsrecord \<Rightarrow> routeConfig \<Rightarrow> handler \<Rightarrow> response run" where
  "runAuth this req params opts h =
     (case authHandler this of
        None \<Rightarrow> validateAndHandle req (\<lambda>r. r) params (validation opts) h
      | Some ah \<Rightarrow>
          (if \<not> truthy (auth opts)
           then validateAndHandle req (\<lambda>r. r) params (validation opts) h
           else case auth opts of
             AuthObject a \<Rightarrow> authenticateRequest ah req a params (validation opts) h
           | _ \<Rightarrow>
               bind (handleAuth ah req (auth opts))
                 (\<lambda>(authRes, authData).
                    case authRes of
                      Some r \<Rightarrow> ret r
                    | None \<Rightarrow>
                        bind (lift (clone req))
                          (\<lambda>c. let authReq = c\<lparr>reqAuth := authData\<rparr>
                               in validateAndHandle req (\<lambda>_. authReq) params
                                    (validation opts) h))))"

text \<open>\<open>runValidationAndHandle\<close> (part_008, line 201).\<close>

definition runValidationAndHandle ::
  "request \<Rightarrow> jsrecord \<Rightarrow> routeConfig \<Rightarrow> handler \<Rightarrow> response run" where
  "runValidationAndHandle req params opts h =
     validateAndHandle req (\<lambda>r. r) params (validation opts) h"

text \<open>Calling \<open>route.handler(req, params)\<close>.\<close>

fun callRouteHandler :: "router \<Rightarrow> wrapped \<Rightarrow> request \<Rightarrow> jsrecord \<Rightarrow> response run" where
  "callRouteHandler this (RunAuth opts h) req params = runAuth this req params opts h"
| "callRouteHandler this (RunValidationAndHandle opts h) req params =
     runValidationAndHandle req params opts h"

fun runMiddlewares :: "request \<Rightarrow> middleware list \<Rightarrow> response option run" where
  "runMiddlewares req [] = ret None"
| "runMiddlewares req (mw # mws) =
     bind (call (MwCall (fst mw)) (snd mw req))
       (\<lambda>res. case res of Some r \<Rightarrow> ret (Some r) | None \<Rightarrow> runMiddlewares req mws)"

fun runPathMiddlewares ::
  "(string \<times> middleware list) list \<Rightarrow> request \<Rightarrow> string \<Rightarrow> response option run" where
  "runPathMiddlewares [] req path = ret None"
| "runPathMiddlewares ((p, mws) # rest) req path =
     (if startsWith path p
      then bind (runMiddlewares req mws)
             (\<lambda>res. case res of Some r \<Rightarrow> ret (Some r)
                     | None \<Rightarrow> runPathMiddlewares rest req path)
      else runPathMiddlewares rest req path)"

definition notFoundRes :: response where
  "notFoundRes =
     \<lparr>status = 404, resHeaders = [(''content-type'', ''application/json'')],
      resBody = BodyJson (JObj [(''error'', JStr ''Not Found'')])\<rparr>"

definition defaultErrorRes :: "thrown \<Rightarrow> response" where
  "defaultErrorRes error =
     \<lparr>status = 500, resHeaders = [(''content-type'', ''application/json'')],
      resBody = BodyJson (JObj
        [(''error'', JStr ''Internal Server Error''),
         (''message'', JStr (case error of
                               NonError s \<Rightarrow> ''An unexpected error occurred.''
                             | _ \<Rightarrow> errorMessage error))])\<rparr>"

definition handleError :: "router \<Rightarrow> thrown \<Rightarrow> request \<Rightarrow> response run" where
  "handleError this error req =
     bind (runPluginHook onError id OnError (plugins this) (error, req))
       (\<lambda>pluginResponse.
          case pluginResponse of
            Some r \<Rightarrow> ret r
          | None \<Rightarrow>
              (case routerOnError this of
                 Some f \<Rightarrow> call RouterOnError (f (error, req))
               | None \<Rightarrow> ret (defaultErrorRes error)))"

text \<open>\<open>setContentType\<close>: a missing or empty content type becomes \<open>application/json\<close>.\<close>

definition setContentType :: "response \<Rightarrow> response" where
  "setContentType res =
     (case headersGet (resHeaders res) ''content-type'' of
        Some (c # cs) \<Rightarrow> res
      | _ \<Rightarrow> res\<lparr>resHeaders :=
                   AList.update ''content-type'' ''application/json'' (resHeaders res)\<rparr>)"

text \<open>\<open>return await this.runPluginResponseHook(req, res)\<close>, a \<open>return\<close> of \<open>handle\<close>.\<close>

definition respond :: "router \<Rightarrow> request \<Rightarrow> response \<Rightarrow> response option run" where
  "respond this req res =
     bind (runPluginResponseHook (plugins this) req res) (\<lambda>r. ret (Some r))"

text \<open>
  \<open>handle\<close> (router.ts, line 114; the same text in part_008, line 146): the statements
  after the route lookup, the \<open>try\<close> block, and the function with its \<open>catch\<close>. The
  result type is that of the source, \<open>Response | null\<close>.
\<close>

definition handleMatched :: "router \<Rightarrow> request \<Rightarrow> route \<Rightarrow> jsrecord \<Rightarrow> response option run"
  where
  "handleMatched this req rte params =
     bind (runMiddlewares req (case routeMiddleware rte of None \<Rightarrow> [] | Some ms \<Rightarrow> ms))
       (\<lambda>routeMwResp.
          case routeMwResp of
            Some rr \<Rightarrow> respond this req rr
          | None \<Rightarrow>
              bind (callRouteHandler this (routeHandler rte) req params)
                (\<lambda>res. respond this req (setContentType res)))"

definition handleTry :: "router \<Rightarrow> request \<Rightarrow> response option run" where
  "handleTry this req =
     bind (runPluginHook onRequest id OnRequest (plugins this) req)
       (\<lambda>pluginResponse.
          case pluginResponse of
            Some pr \<Rightarrow> respond this req pr
          | None \<Rightarrow>
              bind (runMiddlewares req (globalMws this))
                (\<lambda>globalResp.
                   case globalResp of
                     Some g \<Rightarrow> respond this req g
                   | None \<Rightarrow>
                       bind (runPathMiddlewares (pathMws this) req (reqPathname req))
                         (\<lambda>pathResp.
                            case pathResp of
                              Some pr \<Rightarrow> respond this req pr
                            | None \<Rightarrow>
                                bind (call RouteLookup
                                        (Inr (matchRouteHandler (routes this) (reqMethod req)
                                                (reqPathname req))))
                                  (\<lambda>matched.
                                     case matched of
                                       None \<Rightarrow> respond this req notFoundRes
                                     | Some (rte, params) \<Rightarrow>
                                         handleMatched this req rte params))))"

definition handle :: "router \<Rightarrow> request \<Rightarrow> response option run" where
  "handle this req =
     catch (handleTry this req)
       (\<lambda>err. bind (handleError this err req) (\<lambda>errorRes. respond this req errorRes))"

section \<open>The earlier copy of the validation engine\<close>

text \<open>
  The repository also holds an earlier \<open>validateRequest\<close> (part_009, line 272), for zod
  schemas only, which the engine above replaces. A schema's \<open>parse\<close> returns a value or
  throws, a \<open>ZodError\<close> with its issues or something else; \<open>parsedData\<close> starts empty;
  a facet's \<open>catch\<close> records a \<open>ZodError\<close> and, for params, query and headers, drops
  anything else; the body is read with \<open>req.json()\<close> from the request itself, and every
  failure of the body that is not a \<open>ZodError\<close> is recorded as \<open>Invalid JSON\<close>.
\<close>

datatype zodIssue = ZodIssue (issueCode: string) (issuePath: "string list") (issueMessage: string)

datatype zodThrown = ZodError "zodIssue list" | OtherThrown thrown

type_synonym zodType = "json \<Rightarrow> zodThrown + json"

record zodSchema =
  zodParams :: "zodType option"
  zodQuery :: "zodType option"
  zodHeaders :: "zodType option"
  zodBody :: "zodType option"

record zodParsed =
  parsedParams :: "json option"
  parsedQuery :: "json option"
  parsedHeaders :: "json option"
  parsedBody :: "json option"

type_synonym zodValidationError = "facet \<times> zodIssue list"

definition zodFacet ::
  "facet \<Rightarrow> zodType \<Rightarrow> json \<Rightarrow> json option \<times> zodValidationError list
     \<Rightarrow> json option \<times> zodValidationError list" where
  "zodFacet f schema input st =
     (case schema input of
        Inr x \<Rightarrow> (Some x, snd st)
      | Inl (ZodError issues) \<Rightarrow> (fst st, snd st @ [(f, issues)])
      | Inl (OtherThrown e) \<Rightarrow> st)"

definition validateRequest_zod ::
  "request \<Rightarrow> jsrecord \<Rightarrow> zodSchema option
     \<Rightarrow> (zodValidationError list + zodParsed) \<times> request" where
  "validateRequest_zod req params schema =
     (let zp = (case schema of None \<Rightarrow> None | Some s \<Rightarrow> zodParams s);
          zq = (case schema of None \<Rightarrow> None | Some s \<Rightarrow> zodQuery s);
          zh = (case schema of None \<Rightarrow> None | Some s \<Rightarrow> zodHeaders s);
          zb = (case schema of None \<Rightarrow> None | Some s \<Rightarrow> zodBody s);
          (pParams, errors1) =
            (case zp of
               Some v \<Rightarrow> zodFacet Params v (recordJson params) (None, [])
             | None \<Rightarrow> (Some (recordJson params), []));
          queryParams = recordJson (fromEntries (reqSearchParams req));
          (pQuery, errors2) =
            (case zq of
               Some v \<Rightarrow> zodFacet Query v queryParams (None, errors1)
             | None \<Rightarrow> (Some queryParams, errors1));
          hdrs = recordJson (fromEntries (reqHeaders req));
          (pHeaders, errors3) =
            (case zh of
               Some v \<Rightarrow> zodFacet Headers v hdrs (None, errors2)
             | None \<Rightarrow> (Some hdrs, errors2));
          ((pBody, errors4), req') =
            (case zb of
               None \<Rightarrow> ((None, errors3), req)
             | Some v \<Rightarrow>
                 (case readJson req of
                    (Inl e, r) \<Rightarrow>
                      ((None, errors3 @ [(Body, [ZodIssue ''custom'' [] ''Invalid JSON''])]), r)
                  | (Inr body, r) \<Rightarrow>
                      (case v body of
                         Inr x \<Rightarrow> ((Some x, errors3), r)
                       | Inl (ZodError issues) \<Rightarrow> ((None, errors3 @ [(Body, issues)]), r)
                       | Inl (OtherThrown e) \<Rightarrow>
                           ((None, errors3 @ [(Body, [ZodIssue ''custom'' [] ''Invalid JSON''])]),
                            r))))
      in (if errors4 \<noteq> [] then Inl errors4
          else Inr \<lparr>parsedParams = pParams, parsedQuery = pQuery,
                    parsedHeaders = pHeaders, parsedBody = pBody\<rparr>, req'))"

section \<open>Notions of the specification\<close>

subsection \<open>Chained rewrite of a registration\<close>

text \<open>
  One step of the chained rewrite: the plugin's before-route-register hook receives the
  current config and handler, and what it returns replaces them; a plugin without the hook,
  and a hook that returns nothing or throws, leave them as they are. The calls of a round
  of before hooks, and the condition that no before hook throws.
\<close>

fun rewriteBy :: "string \<Rightarrow> string \<Rightarrow> routeConfig \<times> handler \<Rightarrow> plugin \<Rightarrow> routeConfig \<times> handler" where
  "rewriteBy method path (opts, h) p =
     (case onBeforeRouteRegister p of
        None \<Rightarrow> (opts, h)
      | Some hook \<Rightarrow>
          (case hook (method, path, opts, Some h) of
             Inr (Rewrite newOpts newHandler) \<Rightarrow>
               (case newOpts of Some opts' \<Rightarrow> opts' | None \<Rightarrow> opts,
                case newHandler of Some h' \<Rightarrow> h' | None \<Rightarrow> h)
           | _ \<Rightarrow> (opts, h)))"

definition beforeHookCalls :: "plugin list \<Rightarrow> event list" where
  "beforeHookCalls ps =
     map (\<lambda>p. PluginHook (pluginName p) OnBeforeRouteRegister)
       (filter (\<lambda>p. onBeforeRouteRegister p \<noteq> None) ps)"

definition beforeHooksReturn :: "plugin list \<Rightarrow> bool" where
  "beforeHooksReturn ps =
     (\<forall>p \<in> set ps. \<forall>hook args. onBeforeRouteRegister p = Some hook \<longrightarrow> (\<exists>r. hook args = Inr r))"

subsection \<open>Facets of a validation\<close>


definition jsonContentType :: "request \<Rightarrow> bool" where
  "jsonContentType req =
     stringIncludes (case headersGet (reqHeaders req) ''content-type'' of None \<Rightarrow> [] | Some c \<Rightarrow> c)
       ''application/json''"

definition facetInput :: "request \<Rightarrow> jsrecord \<Rightarrow> facet \<Rightarrow> string + json" where
  "facetInput req params f =
     (case f of
        Params \<Rightarrow> Inr (recordJson params)
      | Query \<Rightarrow> Inr (recordJson (fromEntries (reqSearchParams req)))
      | Headers \<Rightarrow> Inr (recordJson (fromEntries (reqHeaders req)))
      | Body \<Rightarrow>
          (if jsonContentType req
           then (case cloneJson req of
                   Inl e \<Rightarrow> Inl ''Invalid JSON in request body''
                 | Inr v \<Rightarrow> Inr v)
           else (case cloneText req of
                   Inl e \<Rightarrow> Inl (errorMessage e)
                 | Inr t \<Rightarrow> Inr (JStr t))))"








subsection \<open>The stages of a dispatch\<close>

text \<open>
  A log put in front of a computation; the calls of a list of middleware; the middleware
  of the path tier for a request path (those of every registered prefix the path starts
  with, prefix by prefix in the order the prefixes were first registered); the middleware
  of a route; a middleware that continues (returns \<open>null\<close>) and one that ends the pipeline
  with a response; the calls that belong to the pipeline proper (middleware, route lookup,
  authentication, validation, handler), as opposed to plugin hooks and the router's error
  handler.

  One step of the on-response round (the plugin's hook may replace the response), the
  calls of a full round, and the condition that no on-response hook throws.

  \<open>pipelineResponse\<close> is the response of the stage that ends the pipeline, before the
  on-response round: the \<open>try\<close> block of \<open>handle\<close> with every
  \<open>return await this.runPluginResponseHook(req, res)\<close> read as \<open>return res\<close>.

  \<open>finishedWith this req r t\<close>: the dispatch made the calls \<open>t\<close>, the pipeline ended with
  the response \<open>r\<close>, and all that follows are calls of plugin hooks and of the router's
  error handler; when the on-response round on \<open>r\<close> returns, its result is the result of
  the dispatch.
\<close>

definition prepend :: "event list \<Rightarrow> 'a run \<Rightarrow> 'a run" where
  "prepend t m = (fst m, t @ snd m)"

definition mwCalls :: "middleware list \<Rightarrow> event list" where
  "mwCalls mws = map (\<lambda>mw. MwCall (fst mw)) mws"

definition pathChain :: "(string \<times> middleware list) list \<Rightarrow> string \<Rightarrow> middleware list" where
  "pathChain pm path = concat (map snd (filter (\<lambda>(p, mws). startsWith path p) pm))"

definition routeChain :: "route \<Rightarrow> middleware list" where
  "routeChain rte = (case routeMiddleware rte of None \<Rightarrow> [] | Some ms \<Rightarrow> ms)"

definition passes :: "request \<Rightarrow> middleware \<Rightarrow> bool" where
  "passes req mw = (snd mw req = Inr None)"

definition terminates :: "request \<Rightarrow> middleware \<Rightarrow> response \<Rightarrow> bool" where
  "terminates req mw r = (snd mw req = Inr (Some r))"

fun pipelineEvent :: "event \<Rightarrow> bool" where
  "pipelineEvent (PluginHook n k) = False"
| "pipelineEvent RouterOnError = False"
| "pipelineEvent e = True"

fun threadResponse :: "request \<Rightarrow> response \<Rightarrow> plugin \<Rightarrow> response" where
  "threadResponse req res p =
     (case onResponse p of
        None \<Rightarrow> res
      | Some hook \<Rightarrow> (case hook (req, res) of Inr (Some r) \<Rightarrow> r | _ \<Rightarrow> res))"

definition responseHookCalls :: "plugin list \<Rightarrow> event list" where
  "responseHookCalls ps =
     map (\<lambda>p. PluginHook (pluginName p) OnResponse) (filter (\<lambda>p. onResponse p \<noteq> None) ps)"

definition responseHooksReturn :: "plugin list \<Rightarrow> request \<Rightarrow> bool" where
  "responseHooksReturn ps req =
     (\<forall>p \<in> set ps. \<forall>hook res. onResponse p = Some hook \<longrightarrow> (\<exists>r. hook (req, res) = Inr r))"

definition matchedResponse :: "router \<Rightarrow> request \<Rightarrow> route \<Rightarrow> jsrecord \<Rightarrow> response run" where
  "matchedResponse this req rte params =
     bind (runMiddlewares req (case routeMiddleware rte of None \<Rightarrow> [] | Some ms \<Rightarrow> ms))
       (\<lambda>routeMwResp.
          case routeMwResp of
            Some rr \<Rightarrow> ret rr
          | None \<Rightarrow>
              bind (callRouteHandler this (routeHandler rte) req params)
                (\<lambda>res. ret (setContentType res)))"

definition pipelineResponse :: "router \<Rightarrow> request \<Rightarrow> response run" where
  "pipelineResponse this req =
     bind (runPluginHook onRequest id OnRequest (plugins this) req)
       (\<lambda>pluginResponse.
          case pluginResponse of
            Some pr \<Rightarrow> ret pr
          | None \<Rightarrow>
              bind (runMiddlewares req (globalMws this))
                (\<lambda>globalResp.
                   case globalResp of
                     Some g \<Rightarrow> ret g
                   | None \<Rightarrow>
                       bind (runPathMiddlewares (pathMws this) req (reqPathname req))
                         (\<lambda>pathResp.
                            case pathResp of
                              Some pr \<Rightarrow> ret pr
                            | None \<Rightarrow>
                                bind (call RouteLookup
                                        (Inr (matchRouteHandler (routes this) (reqMethod req)
                                                (reqPathname req))))
                                  (\<lambda>matched.
                                     case matched of
                                       None \<Rightarrow> ret notFoundRes
                                     | Some (rte, params) \<Rightarrow>
                                         matchedResponse this req rte params))))"


definition finishedWith :: "router \<Rightarrow> request \<Rightarrow> response \<Rightarrow> event list \<Rightarrow> bool" where
  "finishedWith this req r t =
     ((\<exists>rest. snd (handle this req) = t @ rest \<and> (\<forall>e \<in> set rest. \<not> pipelineEvent e)) \<and>
      (\<forall>r' tr. runPluginResponseHook (plugins this) req r = (Inr r', tr) \<longrightarrow>
                handle this req = (Inr (Some r'), t @ tr)))"


section \<open>Requests, handlers and configs of the examples\<close>

text \<open>
  The fixtures of the repository's tests (router.test.ts): a request without a body, a
  handler that answers with a text, and auth configs whose verify step succeeds or throws.
  A \<open>Response\<close> made from a string has the content type \<open>text/plain;charset=UTF-8\<close>.
\<close>

definition getRequest :: "string \<Rightarrow> request" where
  "getRequest path =
     \<lparr>reqMethod = ''GET'', reqPathname = path, reqSearchParams = [], reqHeaders = [],
      reqBody = None, reqBodyJson = None, reqBodyUsed = False, reqAuth = None\<rparr>"

definition textResponse :: "nat \<Rightarrow> string \<Rightarrow> response" where
  "textResponse code text =
     \<lparr>status = code, resHeaders = [(''content-type'', ''text/plain;charset=UTF-8'')],
      resBody = BodyText text\<rparr>"

definition protectedHandler :: handler where
  "protectedHandler = (''protected handler'', \<lambda>(req, data). Inr (textResponse 200 ''protected data''))"

definition noValidator :: "validationSchema option" where
  "noValidator = None"

definition globalAuth :: authConfig where
  "globalAuth =
     \<lparr>verify = (''global verify'', \<lambda>req. Inr (JObj [(''userId'', JStr ''123'')])),
      authOnError = Some (''global onError'', \<lambda>e. Inr (textResponse 403 ''Custom error response''))\<rparr>"

definition failingRouteAuth :: authConfig where
  "failingRouteAuth =
     \<lparr>verify = (''route verify'', \<lambda>req. Inl (Error ''Invalid token'')),
      authOnError = None\<rparr>"

text \<open>
  A plugin whose before-route-register hook wraps the handler it is given, a wrapper that
  marks the response body and the label with a tag, and a router with two such plugins,
  \<open>A\<close> registered before \<open>B\<close>.
\<close>

definition wrappingPlugin :: "string \<Rightarrow> (handler \<Rightarrow> handler) \<Rightarrow> plugin" where
  "wrappingPlugin name w =
     \<lparr>pluginName = name, onInit = None,
      onBeforeRouteRegister =
        Some (\<lambda>(method, path, opts, h).
                Inr (case h of Some h' \<Rightarrow> Rewrite None (Some (w h')) | None \<Rightarrow> Void)),
      onAfterRouteRegister = None, onRequest = None, onError = None, onResponse = None\<rparr>"

definition tagWrapper :: "string \<Rightarrow> handler \<Rightarrow> handler" where
  "tagWrapper tag h =
     (tag @ ''('' @ fst h @ '')'',
      \<lambda>args. case snd h args of
               Inl e \<Rightarrow> Inl e
             | Inr res \<Rightarrow>
                 Inr (res\<lparr>resBody := (case resBody res of
                                       BodyText t \<Rightarrow> BodyText (tag @ ''('' @ t @ '')'')
                                     | b \<Rightarrow> b)\<rparr>))"

definition baseHandler :: handler where
  "baseHandler = (''h'', \<lambda>(req, data). Inr (textResponse 200 ''h''))"

definition twoWrappers :: router where
  "twoWrappers =
     snd (registerPlugin (snd (registerPlugin (newRouter None) (wrappingPlugin ''A'' (tagWrapper ''A''))))
            (wrappingPlugin ''B'' (tagWrapper ''B'')))"

definition plainOpts :: routeConfig where
  "plainOpts = \<lparr>auth = AuthAbsent, validation = noValidator, middleware = None\<rparr>"

text \<open>
  Validators in the manner of the tests of router-utils (a required string field with a
  minimal length), a validator that throws a given value, a request for \<open>POST /users/12\<close>
  with an empty \<open>page\<close> query value and a JSON body that lacks the \<open>age\<close> field, and
  two schemas.
\<close>

definition fieldMinLength :: "string \<Rightarrow> nat \<Rightarrow> validator" where
  "fieldMinLength k n =
     VObject (Some (\<lambda>v. case v of
        JObj kvs \<Rightarrow>
          (case map_of kvs k of
             Some (JStr s) \<Rightarrow>
               if n \<le> length s then Inr v else Inl (Error (k @ '': String is too short''))
           | _ \<Rightarrow> Inl (Error (k @ '': Required'')))
      | _ \<Rightarrow> Inl (Error ''Expected object'')))"


definition threeFailuresSchema :: "validationSchema option" where
  "threeFailuresSchema =
     Some \<lparr>schemaParams = Some (fieldMinLength ''id'' 3),
           schemaQuery = Some (fieldMinLength ''page'' 1),
           schemaHeaders = Some (fieldMinLength ''content-type'' 1),
           schemaBody = Some (fieldMinLength ''age'' 1)\<rparr>"

definition postUserRequest :: request where
  "postUserRequest =
     \<lparr>reqMethod = ''POST'', reqPathname = ''/users/12'', reqSearchParams = [(''page'', [])],
      reqHeaders = [(''content-type'', ''application/json'')],
      reqBody = Some ''{\"name\":\"Jo\"}'',
      reqBodyJson = Some (JObj [(''name'', JStr ''Jo'')]),
      reqBodyUsed = False, reqAuth = None\<rparr>"


text \<open>
  A plugin whose on-response hook adds a header, a middleware that answers on one path and
  continues on every other, and a router with two such plugins, three global middleware,
  three middleware under the prefix \<open>/api\<close> and the route \<open>GET /api/data\<close> with three
  middleware of its own.
\<close>

definition stampPlugin :: "string \<Rightarrow> plugin" where
  "stampPlugin n =
     \<lparr>pluginName = n, onInit = None, onBeforeRouteRegister = None,
      onAfterRouteRegister = None, onRequest = None, onError = None,
      onResponse = Some (\<lambda>(req, res).
        Inr (Some (res\<lparr>resHeaders := resHeaders res @ [(''x-'' @ n, ''1'')]\<rparr>)))\<rparr>"

definition gate :: "string \<Rightarrow> string \<Rightarrow> nat \<Rightarrow> middleware" where
  "gate label path code =
     (label, \<lambda>req. if reqPathname req = path then Inr (Some (textResponse code label))
                    else Inr None)"

definition gatedOpts :: routeConfig where
  "gatedOpts =
     \<lparr>auth = AuthAbsent, validation = noValidator,
      middleware = Some [gate ''route log'' ''/never'' 500,
                         gate ''route gate'' ''/api/data'' 429,
                         gate ''route after'' ''/api/data'' 500]\<rparr>"

definition tieredRouter :: router where
  "tieredRouter =
     (let r1 = snd (registerPlugin (newRouter None) (stampPlugin ''first''));
          r2 = snd (registerPlugin r1 (stampPlugin ''second''));
          r3 = use r2 (gate ''global log'' ''/never'' 500) None;
          r4 = use r3 (gate ''global gate'' ''/blocked'' 401) None;
          r5 = use r4 (gate ''global after'' ''/blocked'' 500) None;
          r6 = use r5 (gate ''api log'' ''/never'' 500) (Some ''/api'');
          r7 = use r6 (gate ''api gate'' ''/api/secret'' 403) (Some ''/api'');
          r8 = use r7 (gate ''api after'' ''/api/secret'' 500) (Some ''/api'')
      in snd (addRoute r8 ''GET'' ''/api/data'' gatedOpts protectedHandler))"

definition stamped :: "response \<Rightarrow> response" where
  "stamped res = res\<lparr>resHeaders := resHeaders res @ [(''x-first'', ''1''), (''x-second'', ''1'')]\<rparr>"

section \<open>Laws of the call log\<close>

lemma bind_Inr [simp]: "bind (Inr x, t) f = (fst (f x), t @ snd (f x))"
  by (simp add: bind_def split: prod.splits)

lemma bind_Inl [simp]: "bind (Inl e, t) f = (Inl e, t)"
  by (simp add: bind_def)

lemma bind_ret [simp]: "bind (ret x) f = f x"
  by (simp add: ret_def)

section \<open>Properties of the path matcher\<close>




lemma splitChar_Nil: "splitChar d [] = [[]]"
  by simp












section \<open>Authentication on dispatch\<close>

lemma runAuth_no_authHandler:
  "authHandler this = None \<Longrightarrow>
   runAuth this req params opts h = validateAndHandle req (\<lambda>r. r) params (validation opts) h"
  by (simp add: runAuth_def)

text \<open>
  Claim C1 at its failing input. A router made without options, never given a global auth
  config, with the route \<open>GET /protected\<close> registered with \<open>auth: true\<close>: dispatching
  \<open>GET /protected\<close> runs validation and the handler and answers with the handler's 200
  response. The claim asks for the 500 response of the misconfigured state, with neither
  validation nor the handler invoked.
\<close>

theorem auth_true_without_global_config:
  "handle (snd (addRoute (newRouter None) ''GET'' ''/protected''
                  \<lparr>auth = AuthBool True, validation = noValidator, middleware = None\<rparr>
                  protectedHandler))
          (getRequest ''/protected'')
   = (Inr (Some (textResponse 200 ''protected data'')),
      [RouteLookup, ValidateRequest, HandlerCall ''protected handler''])"
  by code_simp

text \<open>
  Claim C2 at its failing inputs. With a global config whose mapper answers 403 and a route
  config whose verify step throws and that has no mapper, dispatch answers with the default
  401 response and the global mapper is not called; \<open>handleAuth\<close> itself, given the route
  config on the handler that holds the global one, does call the global mapper. On a router
  without a global config the route's verify step is not called at all.
\<close>

theorem route_auth_object_failure_mapper:
  "handle (snd (addRoute (configureAuth (newRouter None) globalAuth) ''GET'' ''/protected''
                  \<lparr>auth = AuthObject failingRouteAuth, validation = noValidator,
                    middleware = None\<rparr>
                  protectedHandler))
          (getRequest ''/protected'')
   = (Inr (Some (authFailedRes (Error ''Invalid token''))),
      [RouteLookup, VerifyCall ''route verify'']) \<and>
   handleAuth \<lparr>config = Some globalAuth\<rparr> (getRequest ''/protected'')
       (AuthObject failingRouteAuth)
   = (Inr (Some (textResponse 403 ''Custom error response''), None),
      [VerifyCall ''route verify'', AuthErrorMapper ''global onError'']) \<and>
   handle (snd (addRoute (newRouter None) ''GET'' ''/protected''
                  \<lparr>auth = AuthObject failingRouteAuth, validation = noValidator,
                    middleware = None\<rparr>
                  protectedHandler))
          (getRequest ''/protected'')
   = (Inr (Some (textResponse 200 ''protected data'')),
      [RouteLookup, ValidateRequest, HandlerCall ''protected handler''])"
  by code_simp

section \<open>Route registration with rewriting plugins\<close>

lemma rewriteBy_None:
  "onBeforeRouteRegister p = None \<Longrightarrow> rewriteBy method path acc p = acc"
  by (cases acc) simp

lemma rewriteBy_Some:
  "onBeforeRouteRegister p = Some hook \<Longrightarrow> hook (method, path, opts, Some h) = Inr r \<Longrightarrow>
   rewriteBy method path (opts, h) p =
     (case r of
        Rewrite newOpts newHandler \<Rightarrow>
          (case newOpts of Some opts' \<Rightarrow> opts' | None \<Rightarrow> opts,
           case newHandler of Some h' \<Rightarrow> h' | None \<Rightarrow> h)
      | _ \<Rightarrow> (opts, h))"
  by (simp split: hookResult.splits)

lemma beforeHookCalls_Cons:
  "beforeHookCalls (p # ps) =
     (if onBeforeRouteRegister p = None then beforeHookCalls ps
      else PluginHook (pluginName p) OnBeforeRouteRegister # beforeHookCalls ps)"
  by (simp add: beforeHookCalls_def)

lemma loop_fold:
  "beforeHooksReturn ps \<Longrightarrow>
   beforeRouteRegisterLoop ps method path opts h =
     (Inr (foldl (rewriteBy method path) (opts, h) ps), beforeHookCalls ps)"
proof (induction ps arbitrary: opts h)
  case Nil
  then show ?case by (simp add: ret_def beforeHookCalls_def)
next
  case (Cons p ps)
  from Cons.prems have rest: "beforeHooksReturn ps"
    by (simp add: beforeHooksReturn_def)
  show ?case
  proof (cases "onBeforeRouteRegister p")
    case None
    with Cons.IH[OF rest] show ?thesis
      by (simp add: rewriteBy_None beforeHookCalls_Cons)
  next
    case (Some hook)
    from Cons.prems Some obtain r where r: "hook (method, path, opts, Some h) = Inr r"
      unfolding beforeHooksReturn_def by (metis list.set_intros(1))
    note step = rewriteBy_Some[OF Some r]
    show ?thesis
    proof (cases r)
      case (Rewrite newOpts newHandler)
      with Some r step Cons.IH[OF rest] show ?thesis
        by (simp add: beforeHookCalls_Cons call_def)
    next
      case Void
      with Some r step Cons.IH[OF rest] show ?thesis
        by (simp add: beforeHookCalls_Cons call_def)
    next
      case (Resp x)
      with Some r step Cons.IH[OF rest] show ?thesis
        by (simp add: beforeHookCalls_Cons call_def)
    qed
  qed
qed

lemma wrapping_return: "beforeHooksReturn (map (\<lambda>(n, w). wrappingPlugin n w) nws)"
  by (auto simp: beforeHooksReturn_def wrappingPlugin_def split: option.splits)

lemma wrapping_fold:
  "foldl (rewriteBy method path) (opts, h) (map (\<lambda>(n, w). wrappingPlugin n w) nws) =
     (opts, foldl (\<lambda>h (n, w). w h) h nws)"
proof (induction nws arbitrary: h)
  case Nil
  then show ?case by simp
next
  case (Cons nw nws)
  have "rewriteBy method path (opts, h) (wrappingPlugin (fst nw) (snd nw)) = (opts, snd nw h)"
    by (simp add: wrappingPlugin_def)
  with Cons.IH[of "snd nw h"] show ?case
    by (simp add: case_prod_beta)
qed


lemma addRoute_chained_routes:
  assumes "beforeHooksReturn (plugins this)"
  shows "routes (snd (addRoute_chained this method path opts h)) =
           routes this @
             [\<lparr>routePath = path, routeMethod = method,
               routeHandler = RunValidationAndHandle
                 (fst (foldl (rewriteBy method path) (opts, h) (plugins this)))
                 (snd (foldl (rewriteBy method path) (opts, h) (plugins this))),
               routeMiddleware =
                 middleware (fst (foldl (rewriteBy method path) (opts, h) (plugins this)))\<rparr>]"
  using loop_fold[OF assms, of "method" "path" "opts" "h"]
  by (simp add: addRoute_chained_def Let_def split: prod.splits)

text \<open>
  Claim C3, as amended. Registration (\<open>addRoute\<close> of part_008) threads config and handler
  through the before-route-register hooks in registration order: each hook receives what
  the previous rewrite left, and the route stored holds the config and handler of the last
  rewrite (and that config's middleware). With handler-wrapping plugins every wrapper is
  applied around the result of the plugins registered before it: for two plugins the
  stored handler is the second plugin's wrapper around the first plugin's wrapper around
  the handler, so the wrapper of the plugin registered last is the outermost.
\<close>

theorem addRoute_chained_rewrite:
  "(beforeHooksReturn (plugins this) \<longrightarrow>
      beforeRouteRegisterLoop (plugins this) method path opts h =
        (Inr (foldl (rewriteBy method path) (opts, h) (plugins this)),
         beforeHookCalls (plugins this)) \<and>
      routes (snd (addRoute_chained this method path opts h)) =
        routes this @
          [\<lparr>routePath = path, routeMethod = method,
            routeHandler = RunValidationAndHandle
              (fst (foldl (rewriteBy method path) (opts, h) (plugins this)))
              (snd (foldl (rewriteBy method path) (opts, h) (plugins this))),
            routeMiddleware =
              middleware (fst (foldl (rewriteBy method path) (opts, h) (plugins this)))\<rparr>]) \<and>
   (plugins this = map (\<lambda>(n, w). wrappingPlugin n w) nws \<longrightarrow>
      routes (snd (addRoute_chained this method path opts h)) =
        routes this @
          [\<lparr>routePath = path, routeMethod = method,
            routeHandler = RunValidationAndHandle opts (foldl (\<lambda>h' (n, w). w h') h nws),
            routeMiddleware = middleware opts\<rparr>]) \<and>
   (plugins this = [wrappingPlugin n1 w1, wrappingPlugin n2 w2] \<longrightarrow>
      routes (snd (addRoute_chained this method path opts h)) =
        routes this @
          [\<lparr>routePath = path, routeMethod = method,
            routeHandler = RunValidationAndHandle opts (w2 (w1 h)),
            routeMiddleware = middleware opts\<rparr>])"
proof (intro conjI impI)
  assume a: "beforeHooksReturn (plugins this)"
  show "beforeRouteRegisterLoop (plugins this) method path opts h =
        (Inr (foldl (rewriteBy method path) (opts, h) (plugins this)),
         beforeHookCalls (plugins this))"
    by (rule loop_fold[OF a])
  show "routes (snd (addRoute_chained this method path opts h)) =
        routes this @
          [\<lparr>routePath = path, routeMethod = method,
            routeHandler = RunValidationAndHandle
              (fst (foldl (rewriteBy method path) (opts, h) (plugins this)))
              (snd (foldl (rewriteBy method path) (opts, h) (plugins this))),
            routeMiddleware =
              middleware (fst (foldl (rewriteBy method path) (opts, h) (plugins this)))\<rparr>]"
    by (rule addRoute_chained_routes[OF a])
next
  assume p: "plugins this = map (\<lambda>(n, w). wrappingPlugin n w) nws"
  have r: "beforeHooksReturn (plugins this)"
    unfolding p by (rule wrapping_return)
  show "routes (snd (addRoute_chained this method path opts h)) =
        routes this @
          [\<lparr>routePath = path, routeMethod = method,
            routeHandler = RunValidationAndHandle opts (foldl (\<lambda>h' (n, w). w h') h nws),
            routeMiddleware = middleware opts\<rparr>]"
    using addRoute_chained_routes[OF r, of "method" "path" "opts" "h"]
    by (simp add: p wrapping_fold)
next
  assume p: "plugins this = [wrappingPlugin n1 w1, wrappingPlugin n2 w2]"
  then have p': "plugins this = map (\<lambda>(n, w). wrappingPlugin n w) [(n1, w1), (n2, w2)]"
    by simp
  have r: "beforeHooksReturn (plugins this)"
    unfolding p' by (rule wrapping_return)
  show "routes (snd (addRoute_chained this method path opts h)) =
        routes this @
          [\<lparr>routePath = path, routeMethod = method,
            routeHandler = RunValidationAndHandle opts (w2 (w1 h)),
            routeMiddleware = middleware opts\<rparr>]"
    using addRoute_chained_routes[OF r, of "method" "path" "opts" "h"]
    unfolding p' wrapping_fold by simp
qed

text \<open>The theorem on the router with the plugins \<open>A\<close> and \<open>B\<close>.\<close>

lemma twoWrappers_plugins:
  "plugins twoWrappers =
     [wrappingPlugin ''A'' (tagWrapper ''A''), wrappingPlugin ''B'' (tagWrapper ''B'')]"
  by (simp add: twoWrappers_def registerPlugin_def newRouter_def Let_def)

lemma twoWrappers_routes: "routes twoWrappers = []"
  by (simp add: twoWrappers_def registerPlugin_def newRouter_def Let_def)

theorem addRoute_chained_rewrite_witness:
  "beforeHooksReturn (plugins twoWrappers) \<and>
   plugins twoWrappers =
     map (\<lambda>(n, w). wrappingPlugin n w) [(''A'', tagWrapper ''A''), (''B'', tagWrapper ''B'')] \<and>
   plugins twoWrappers =
     [wrappingPlugin ''A'' (tagWrapper ''A''), wrappingPlugin ''B'' (tagWrapper ''B'')] \<and>
   fst (beforeRouteRegisterLoop (plugins twoWrappers) ''GET'' ''/x'' plainOpts baseHandler) =
     Inr (foldl (rewriteBy ''GET'' ''/x'') (plainOpts, baseHandler) (plugins twoWrappers)) \<and>
   routes (snd (addRoute_chained twoWrappers ''GET'' ''/x'' plainOpts baseHandler)) =
     [\<lparr>routePath = ''/x'', routeMethod = ''GET'',
       routeHandler = RunValidationAndHandle plainOpts
                        (foldl (\<lambda>h' (n, w). w h') baseHandler
                           [(''A'', tagWrapper ''A''), (''B'', tagWrapper ''B'')]),
       routeMiddleware = middleware plainOpts\<rparr>] \<and>
   routes (snd (addRoute_chained twoWrappers ''GET'' ''/x'' plainOpts baseHandler)) =
     [\<lparr>routePath = ''/x'', routeMethod = ''GET'',
       routeHandler = RunValidationAndHandle plainOpts
                        (tagWrapper ''B'' (tagWrapper ''A'' baseHandler)),
       routeMiddleware = middleware plainOpts\<rparr>]"
proof -
  have p: "plugins twoWrappers =
     [wrappingPlugin ''A'' (tagWrapper ''A''), wrappingPlugin ''B'' (tagWrapper ''B'')]"
    by (rule twoWrappers_plugins)
  then have q: "plugins twoWrappers =
     map (\<lambda>(n, w). wrappingPlugin n w) [(''A'', tagWrapper ''A''), (''B'', tagWrapper ''B'')]"
    by simp
  have r: "beforeHooksReturn (plugins twoWrappers)"
    unfolding q by (rule wrapping_return)
  note inst = addRoute_chained_rewrite[of twoWrappers "''GET''" "''/x''" plainOpts baseHandler
         "[(''A'', tagWrapper ''A''), (''B'', tagWrapper ''B'')]"
         "''A''" "tagWrapper ''A''" "''B''" "tagWrapper ''B''"]
  from inst r
  have a: "fst (beforeRouteRegisterLoop (plugins twoWrappers) ''GET'' ''/x'' plainOpts baseHandler) =
     Inr (foldl (rewriteBy ''GET'' ''/x'') (plainOpts, baseHandler) (plugins twoWrappers))"
    by simp
  from inst q
  have b: "routes (snd (addRoute_chained twoWrappers ''GET'' ''/x'' plainOpts baseHandler)) =
     routes twoWrappers @ [\<lparr>routePath = ''/x'', routeMethod = ''GET'',
       routeHandler = RunValidationAndHandle plainOpts
                        (foldl (\<lambda>h' (n, w). w h') baseHandler
                           [(''A'', tagWrapper ''A''), (''B'', tagWrapper ''B'')]),
       routeMiddleware = middleware plainOpts\<rparr>]"
    by blast
  from inst p
  have c: "routes (snd (addRoute_chained twoWrappers ''GET'' ''/x'' plainOpts baseHandler)) =
     routes twoWrappers @ [\<lparr>routePath = ''/x'', routeMethod = ''GET'',
       routeHandler = RunValidationAndHandle plainOpts
                        (tagWrapper ''B'' (tagWrapper ''A'' baseHandler)),
       routeMiddleware = middleware plainOpts\<rparr>]"
    by blast
  from p q r a b c show ?thesis
    by (simp only: twoWrappers_routes append_Nil simp_thms)
qed

text \<open>
  Claim C3 as stated puts the wrappers outer-to-inner in registration order, the wrapper
  of \<open>A\<close> (registered first) around that of \<open>B\<close>, which would answer \<open>A(B(h))\<close>. The route
  registered on the router with \<open>A\<close> and \<open>B\<close> answers \<open>B(A(h))\<close>: the wrapper of \<open>B\<close> is
  the outer one.
\<close>

theorem wrappers_outer_to_inner_counterexample:
  "handle (snd (addRoute_chained twoWrappers ''GET'' ''/x'' plainOpts baseHandler))
          (getRequest ''/x'')
     = (Inr (Some (textResponse 200 ''B(A(h))'')),
        [RouteLookup, ValidateRequest, HandlerCall ''B(A(h))'']) \<and>
   textResponse 200 ''B(A(h))'' \<noteq> textResponse 200 ''A(B(h))''"
  by code_simp

section \<open>The validation engine\<close>

lemma errors_pushError [simp]:
  "errors (pushError f msg st) = errors st @ [ValidationErrorItem f [msg]]"
  by (simp add: pushError_def)

lemma calls_pushError [simp]: "calls (pushError f msg st) = calls st"
  by (simp add: pushError_def)

lemma errors_logCall [simp]: "errors (logCall f st) = errors st"
  by (simp add: logCall_def)

lemma calls_logCall [simp]: "calls (logCall f st) = calls st @ [ValidatorCall f]"
  by (simp add: logCall_def)

















lemma readJson_consumes:
  "\<not> reqBodyUsed req \<Longrightarrow> reqBody req = Some t \<Longrightarrow>
   reqBodyUsed (snd (readJson req)) \<and>
   fst (readText (snd (readJson req))) = Inl (Error ''Body already used'')"
  by (simp add: readJson_def readText_def consumed_def split: option.splits)

text \<open>
  Claim C5. \<open>validateRequest\<close> leaves the request as it was: with a body validator and an
  unread body, the validator's input is the body, read from a clone, and afterwards the
  body of the request is still unread, so that a later stage can read it or clone the
  request.
\<close>

theorem validateRequest_leaves_body:
  "snd (validateRequest req params schema) = req \<and>
   (optBody schema = Some v \<and> \<not> reqBodyUsed req \<longrightarrow>
      facetInput req params Body =
        (if jsonContentType req
         then (case reqBodyJson req of
                 None \<Rightarrow> Inl ''Invalid JSON in request body''
               | Some j \<Rightarrow> Inr j)
         else Inr (JStr (bodyText req))) \<and>
      \<not> reqBodyUsed (snd (validateRequest req params schema)) \<and>
      fst (readText (snd (validateRequest req params schema))) = Inr (bodyText req) \<and>
      clone (snd (validateRequest req params schema)) = Inr req)"
  by (simp add: validateRequest_def Let_def facetInput_def cloneJson_def cloneText_def
        clone_def readJson_def readText_def bodyText_def split: option.splits)


text \<open>The theorem on the request \<open>POST /users/12\<close> with its JSON body.\<close>

theorem validateRequest_leaves_body_witness:
  "optBody threeFailuresSchema = Some (fieldMinLength ''age'' 1) \<and>
   \<not> reqBodyUsed postUserRequest \<and>
   facetInput postUserRequest [(''id'', ''12'')] Body = Inr (JObj [(''name'', JStr ''Jo'')]) \<and>
   snd (validateRequest postUserRequest [(''id'', ''12'')] threeFailuresSchema) = postUserRequest \<and>
   fst (readText (snd (validateRequest postUserRequest [(''id'', ''12'')] threeFailuresSchema))) =
     Inr (bodyText postUserRequest)"
proof -
  have b: "optBody threeFailuresSchema = Some (fieldMinLength ''age'' 1)"
    by (simp add: threeFailuresSchema_def optBody_def)
  have u: "\<not> reqBodyUsed postUserRequest"
    by (simp add: postUserRequest_def)
  have j: "jsonContentType postUserRequest"
    by code_simp
  have bj: "reqBodyJson postUserRequest = Some (JObj [(''name'', JStr ''Jo'')])"
    by (simp add: postUserRequest_def)
  note inst = validateRequest_leaves_body[of postUserRequest "[(''id'', ''12'')]"
                threeFailuresSchema "fieldMinLength ''age'' 1"]
  from inst have s: "snd (validateRequest postUserRequest [(''id'', ''12'')] threeFailuresSchema) =
                       postUserRequest"
    by blast
  from inst b u have fi: "facetInput postUserRequest [(''id'', ''12'')] Body =
        (if jsonContentType postUserRequest
         then (case reqBodyJson postUserRequest of
                 None \<Rightarrow> Inl ''Invalid JSON in request body''
               | Some j \<Rightarrow> Inr j)
         else Inr (JStr (bodyText postUserRequest)))"
    by blast
  from inst b u have rt:
    "fst (readText (snd (validateRequest postUserRequest [(''id'', ''12'')] threeFailuresSchema))) =
     Inr (bodyText postUserRequest)"
    by blast
  from fi j bj have fi': "facetInput postUserRequest [(''id'', ''12'')] Body =
                            Inr (JObj [(''name'', JStr ''Jo'')])"
    by simp
  from b u fi' s rt show ?thesis
    by (intro conjI)
qed

section \<open>The dispatch pipeline\<close>

lemma prepend_Nil [simp]: "prepend [] m = m"
  by (simp add: prepend_def)

lemma prepend_prepend [simp]: "prepend s (prepend t m) = prepend (s @ t) m"
  by (simp add: prepend_def)

lemma prepend_pair [simp]: "prepend s (x, t) = (x, s @ t)"
  by (simp add: prepend_def)

lemma bind_Inr': "bind (Inr x, t) f = prepend t (f x)"
  by (simp add: prepend_def)

lemma fst_prepend [simp]: "fst (prepend t m) = fst m"
  by (simp add: prepend_def)

lemma snd_prepend [simp]: "snd (prepend t m) = t @ snd m"
  by (simp add: prepend_def)

lemma bind_prepend: "bind (prepend t m) f = prepend t (bind m f)"
  by (cases m) (auto simp: bind_def prepend_def split: sum.splits prod.splits)

lemma bind_assoc: "bind (bind m f) g = bind m (\<lambda>x. bind (f x) g)"
  by (cases m) (auto simp: bind_def split: sum.splits prod.splits)

lemma bind_case_option:
  "bind (case x of None \<Rightarrow> a | Some y \<Rightarrow> b y) f =
     (case x of None \<Rightarrow> bind a f | Some y \<Rightarrow> bind (b y) f)"
  by (cases x) simp_all

lemma bind_case_prod:
  "bind (case p of (a, b) \<Rightarrow> g a b) f = (case p of (a, b) \<Rightarrow> bind (g a b) f)"
  by (cases p) simp

lemma catch_Inr [simp]: "catch (Inr x, t) h = (Inr x, t)"
  by (simp add: catch_def)

lemma catch_Inl [simp]: "catch (Inl e, t) h = prepend t (h e)"
  by (simp add: catch_def prepend_def split: prod.splits)

lemma catch_prepend: "catch (prepend t m) h = prepend t (catch m h)"
  by (cases m) (auto simp: catch_def prepend_def split: sum.splits prod.splits)

lemma handleTry_factor:
  "handleTry this req = bind (pipelineResponse this req) (respond this req)"
  by (simp add: handleTry_def pipelineResponse_def handleMatched_def matchedResponse_def
        bind_assoc bind_case_option bind_case_prod
        cong: option.case_cong prod.case_cong)

lemma runMiddlewares_pass:
  "\<forall>mw \<in> set mws. passes req mw \<Longrightarrow> runMiddlewares req mws = (Inr None, mwCalls mws)"
  by (induction mws) (simp_all add: ret_def call_def passes_def mwCalls_def)

lemma runMiddlewares_short:
  "\<forall>m \<in> set pre. passes req m \<Longrightarrow> terminates req mw r \<Longrightarrow>
   runMiddlewares req (pre @ mw # post) = (Inr (Some r), mwCalls (pre @ [mw]))"
  by (induction pre) (simp_all add: ret_def call_def passes_def terminates_def mwCalls_def)

lemma bind_ret_case:
  "bind m (\<lambda>res. case res of Some r \<Rightarrow> ret (Some r) | None \<Rightarrow> ret None) = m"
  by (cases m) (auto simp: bind_def ret_def split: sum.splits option.splits)

lemma runMiddlewares_append:
  "runMiddlewares req (a @ b) =
     bind (runMiddlewares req a)
       (\<lambda>res. case res of Some r \<Rightarrow> ret (Some r) | None \<Rightarrow> runMiddlewares req b)"
proof (induction a)
  case Nil
  then show ?case by simp
next
  case (Cons mw a)
  then show ?case
    by (simp add: bind_assoc bind_case_option cong: option.case_cong)
qed

lemma runPathMiddlewares_chain:
  "runPathMiddlewares pm req path = runMiddlewares req (pathChain pm path)"
proof (induction pm)
  case Nil
  then show ?case by (simp add: pathChain_def)
next
  case (Cons e pm)
  obtain p mws where e: "e = (p, mws)" by (cases e)
  have pc: "pathChain ((p, mws) # pm) path =
              (if startsWith path p then mws @ pathChain pm path else pathChain pm path)"
    by (simp add: pathChain_def)
  from Cons show ?case
    by (simp add: e pc runMiddlewares_append cong: option.case_cong)
qed


lemma runPluginResponseHook_events:
  "\<forall>e \<in> set (snd (runPluginResponseHook ps req res)). \<not> pipelineEvent e"
proof (induction ps arbitrary: res)
  case Nil
  then show ?case by (simp add: ret_def)
next
  case (Cons p ps)
  show ?case
  proof (cases "onResponse p")
    case None
    with Cons show ?thesis by simp
  next
    case (Some hook)
    show ?thesis
    proof (cases "hook (req, res)")
      case (Inl e)
      with Some show ?thesis by (simp add: call_def)
    next
      case (Inr result)
      with Some Cons[of res] Cons[of "the result"] show ?thesis
        by (cases result) (simp_all add: call_def)
    qed
  qed
qed

lemma runPluginHook_events:
  "\<forall>e \<in> set (snd (runPluginHook sel asResponse kind ps args)). \<not> pipelineEvent e"
proof (induction ps)
  case Nil
  then show ?case by (simp add: ret_def)
next
  case (Cons p ps)
  show ?case
  proof (cases "sel p")
    case None
    with Cons show ?thesis by simp
  next
    case (Some hook)
    show ?thesis
    proof (cases "hook args")
      case (Inl e)
      with Some show ?thesis by (simp add: call_def)
    next
      case (Inr result)
      with Some Cons show ?thesis
        by (cases "asResponse result") (simp_all add: call_def ret_def)
    qed
  qed
qed

lemma respond_events: "\<forall>e \<in> set (snd (respond this req r)). \<not> pipelineEvent e"
proof -
  obtain out t where o: "runPluginResponseHook (plugins this) req r = (out, t)"
    by (cases "runPluginResponseHook (plugins this) req r")
  with runPluginResponseHook_events[of "plugins this" req r]
  show ?thesis
    by (cases out) (simp_all add: respond_def ret_def)
qed

lemma respond_Inr:
  "runPluginResponseHook (plugins this) req r = (Inr r', tr) \<Longrightarrow>
   respond this req r = (Inr (Some r'), tr)"
  by (simp add: respond_def ret_def)


lemma handleError_events: "\<forall>e \<in> set (snd (handleError this err req)). \<not> pipelineEvent e"
proof -
  obtain out t where o: "runPluginHook onError id OnError (plugins this) (err, req) = (out, t)"
    by (cases "runPluginHook onError id OnError (plugins this) (err, req)")
  with runPluginHook_events[of onError id OnError "plugins this" "(err, req)"]
  have t: "\<forall>e \<in> set t. \<not> pipelineEvent e" by simp
  show ?thesis
  proof (cases out)
    case (Inl e)
    with o t show ?thesis by (simp add: handleError_def)
  next
    case (Inr pluginResponse)
    with o t show ?thesis
      by (cases pluginResponse; cases "routerOnError this")
         (simp_all add: handleError_def ret_def call_def)
  qed
qed

lemma catchBlock_events:
  "\<forall>e \<in> set (snd (bind (handleError this err req) (\<lambda>errorRes. respond this req errorRes))).
     \<not> pipelineEvent e"
proof -
  obtain out t where o: "handleError this err req = (out, t)"
    by (cases "handleError this err req")
  with handleError_events[of this err req] have t: "\<forall>e \<in> set t. \<not> pipelineEvent e"
    by simp
  show ?thesis
  proof (cases out)
    case (Inl e)
    with o t show ?thesis by simp
  next
    case (Inr errorRes)
    with o t respond_events[of this req errorRes] show ?thesis by auto
  qed
qed

lemma handle_after_pipeline:
  assumes "pipelineResponse this req = (Inr r, t)"
  shows "finishedWith this req r t"
proof -
  let ?h = "\<lambda>err. bind (handleError this err req) (\<lambda>errorRes. respond this req errorRes)"
  from assms have ht: "handleTry this req = prepend t (respond this req r)"
    by (simp add: handleTry_factor prepend_def)
  then have h: "handle this req = prepend t (catch (respond this req r) ?h)"
    by (simp add: handle_def catch_prepend)
  have ev: "\<forall>e \<in> set (snd (catch (respond this req r) ?h)). \<not> pipelineEvent e"
  proof (cases "respond this req r")
    case (Pair out tr)
    with respond_events[of this req r] have tr: "\<forall>e \<in> set tr. \<not> pipelineEvent e" by simp
    show ?thesis
    proof (cases out)
      case (Inl e)
      with Pair tr catchBlock_events[of this e req] show ?thesis by auto
    next
      case (Inr x)
      with Pair tr show ?thesis by simp
    qed
  qed
  have a: "\<exists>rest. snd (handle this req) = t @ rest \<and> (\<forall>e \<in> set rest. \<not> pipelineEvent e)"
    using h ev by auto
  have b: "\<forall>r' tr. runPluginResponseHook (plugins this) req r = (Inr r', tr) \<longrightarrow>
                handle this req = (Inr (Some r'), t @ tr)"
    using h by (auto simp: respond_Inr)
  from a b show ?thesis by (simp add: finishedWith_def)
qed

lemma pipeline_global_short:
  assumes "runPluginHook onRequest id OnRequest (plugins this) req = (Inr None, t0)"
    and "globalMws this = pre @ mw # post"
    and "\<forall>m \<in> set pre. passes req m"
    and "terminates req mw r"
  shows "pipelineResponse this req = (Inr r, t0 @ mwCalls (pre @ [mw]))"
  using assms runMiddlewares_short[of pre req mw r post]
  by (simp add: pipelineResponse_def ret_def)

lemma pipeline_path_short:
  assumes "runPluginHook onRequest id OnRequest (plugins this) req = (Inr None, t0)"
    and "\<forall>m \<in> set (globalMws this). passes req m"
    and "pathChain (pathMws this) (reqPathname req) = pre @ mw # post"
    and "\<forall>m \<in> set pre. passes req m"
    and "terminates req mw r"
  shows "pipelineResponse this req =
           (Inr r, t0 @ mwCalls (globalMws this) @ mwCalls (pre @ [mw]))"
  using assms runMiddlewares_short[of pre req mw r post]
    runMiddlewares_pass[of "globalMws this" req]
  by (simp add: pipelineResponse_def ret_def runPathMiddlewares_chain)

lemma pipeline_route_short:
  assumes "runPluginHook onRequest id OnRequest (plugins this) req = (Inr None, t0)"
    and "\<forall>m \<in> set (globalMws this). passes req m"
    and "\<forall>m \<in> set (pathChain (pathMws this) (reqPathname req)). passes req m"
    and "matchRouteHandler (routes this) (reqMethod req) (reqPathname req) = Some (rte, params)"
    and "routeChain rte = pre @ mw # post"
    and "\<forall>m \<in> set pre. passes req m"
    and "terminates req mw r"
  shows "pipelineResponse this req =
           (Inr r, t0 @ mwCalls (globalMws this) @
                   mwCalls (pathChain (pathMws this) (reqPathname req)) @
                   [RouteLookup] @ mwCalls (pre @ [mw]))"
proof -
  have rm: "runMiddlewares req (case routeMiddleware rte of None \<Rightarrow> [] | Some ms \<Rightarrow> ms) =
              (Inr (Some r), mwCalls (pre @ [mw]))"
    using assms(5,6,7) runMiddlewares_short[of pre req mw r post]
    by (simp add: routeChain_def)
  show ?thesis
    using assms(1,2,3,4) rm
      runMiddlewares_pass[of "globalMws this" req]
      runMiddlewares_pass[of "pathChain (pathMws this) (reqPathname req)" req]
    by (simp add: pipelineResponse_def matchedResponse_def ret_def call_def
          runPathMiddlewares_chain)
qed


text \<open>
  Claim C7. When the on-request hooks have let the request pass, the first middleware that
  returns a response, in the global tier, the path tier or the route's own tier, ends the
  pipeline: the calls made are those up to that middleware, and every later call is a call
  of a plugin hook or of the router's error handler, so no later middleware of the tier or
  of a later tier, no route lookup (for the global and path tiers, where it comes later),
  no verify step, no validation and no handler runs. When the on-response round returns,
  its result on the middleware's response is the result of the dispatch.
\<close>

theorem middleware_short_circuit:
  assumes "runPluginHook onRequest id OnRequest (plugins this) req = (Inr None, t0)"
  shows
    "(globalMws this = pre @ mw # post \<and> (\<forall>m \<in> set pre. passes req m) \<and> terminates req mw r
        \<longrightarrow> finishedWith this req r (t0 @ mwCalls (pre @ [mw]))) \<and>
     ((\<forall>m \<in> set (globalMws this). passes req m) \<and>
      pathChain (pathMws this) (reqPathname req) = pre @ mw # post \<and>
      (\<forall>m \<in> set pre. passes req m) \<and> terminates req mw r
        \<longrightarrow> finishedWith this req r (t0 @ mwCalls (globalMws this) @ mwCalls (pre @ [mw]))) \<and>
     ((\<forall>m \<in> set (globalMws this). passes req m) \<and>
      (\<forall>m \<in> set (pathChain (pathMws this) (reqPathname req)). passes req m) \<and>
      matchRouteHandler (routes this) (reqMethod req) (reqPathname req) = Some (rte, params) \<and>
      routeChain rte = pre @ mw # post \<and>
      (\<forall>m \<in> set pre. passes req m) \<and> terminates req mw r
        \<longrightarrow> finishedWith this req r
              (t0 @ mwCalls (globalMws this) @
               mwCalls (pathChain (pathMws this) (reqPathname req)) @
               [RouteLookup] @ mwCalls (pre @ [mw])))"
proof (intro conjI impI)
  assume "globalMws this = pre @ mw # post \<and> (\<forall>m \<in> set pre. passes req m) \<and> terminates req mw r"
  then show "finishedWith this req r (t0 @ mwCalls (pre @ [mw]))"
    using pipeline_global_short[OF assms, of pre mw post r]
    by (intro handle_after_pipeline) blast
next
  assume "(\<forall>m \<in> set (globalMws this). passes req m) \<and>
      pathChain (pathMws this) (reqPathname req) = pre @ mw # post \<and>
      (\<forall>m \<in> set pre. passes req m) \<and> terminates req mw r"
  then show "finishedWith this req r (t0 @ mwCalls (globalMws this) @ mwCalls (pre @ [mw]))"
    using pipeline_path_short[OF assms, of pre mw post r]
    by (intro handle_after_pipeline) blast
next
  assume "(\<forall>m \<in> set (globalMws this). passes req m) \<and>
      (\<forall>m \<in> set (pathChain (pathMws this) (reqPathname req)). passes req m) \<and>
      matchRouteHandler (routes this) (reqMethod req) (reqPathname req) = Some (rte, params) \<and>
      routeChain rte = pre @ mw # post \<and>
      (\<forall>m \<in> set pre. passes req m) \<and> terminates req mw r"
  then show "finishedWith this req r
              (t0 @ mwCalls (globalMws this) @
               mwCalls (pathChain (pathMws this) (reqPathname req)) @
               [RouteLookup] @ mwCalls (pre @ [mw]))"
    using pipeline_route_short[OF assms, of rte params pre mw post r]
    by (intro handle_after_pipeline) blast
qed


lemma responseHookCalls_Cons:
  "responseHookCalls (p # ps) =
     (if onResponse p = None then responseHookCalls ps
      else PluginHook (pluginName p) OnResponse # responseHookCalls ps)"
  by (simp add: responseHookCalls_def)

lemma runPluginResponseHook_closed:
  "responseHooksReturn ps req \<Longrightarrow>
   runPluginResponseHook ps req res =
     (Inr (foldl (threadResponse req) res ps), responseHookCalls ps)"
proof (induction ps arbitrary: res)
  case Nil
  then show ?case by (simp add: ret_def responseHookCalls_def)
next
  case (Cons p ps)
  from Cons.prems have rest: "responseHooksReturn ps req"
    by (simp add: responseHooksReturn_def)
  show ?case
  proof (cases "onResponse p")
    case None
    with Cons.IH[OF rest] show ?thesis
      by (simp add: responseHookCalls_Cons)
  next
    case (Some hook)
    from Cons.prems Some obtain result where r: "hook (req, res) = Inr result"
      unfolding responseHooksReturn_def by (metis list.set_intros(1))
    with Some Cons.IH[OF rest] show ?thesis
      by (cases result) (simp_all add: responseHookCalls_Cons call_def)
  qed
qed

lemma catch_bind_total:
  assumes "\<And>x. \<exists>y t. f x = (Inr y, t)"
  shows "catch (bind m f) (\<lambda>e. bind (h e) f) = bind (catch m h) f"
proof (cases m)
  case (Pair out t)
  show ?thesis
  proof (cases out)
    case (Inl e)
    with Pair show ?thesis
      by (simp add: prepend_def) (metis bind_prepend prepend_def)
  next
    case (Inr x)
    from assms[of x] obtain y t' where "f x = (Inr y, t')" by blast
    with Pair Inr show ?thesis by simp
  qed
qed

lemma handle_unfold:
  "handle this req =
     catch (bind (pipelineResponse this req) (respond this req))
       (\<lambda>err. bind (handleError this err req) (respond this req))"
  by (simp add: handle_def handleTry_factor)

text \<open>
  Claim C8. Every \<open>return\<close> of \<open>handle\<close> goes through the on-response round: \<open>handle\<close>
  is the pipeline followed by the round, with the error translation followed by the round
  as its \<open>catch\<close>. When no on-response hook throws, the round calls the hook of every
  plugin that has one, in registration order, each on the response the plugins before it
  left, whether they replaced it or not; so for every response the dispatch arrives at
  (handler response, on-request short-circuit, middleware short-circuit, 404 or translated
  error) the result is that response threaded through all plugins.
\<close>

theorem response_hooks_run_for_every_outcome:
  "handleTry this req = bind (pipelineResponse this req) (respond this req) \<and>
   handle this req =
     catch (bind (pipelineResponse this req) (respond this req))
       (\<lambda>err. bind (handleError this err req) (respond this req)) \<and>
   (responseHooksReturn (plugins this) req \<longrightarrow>
      (\<forall>res. runPluginResponseHook (plugins this) req res =
               (Inr (foldl (threadResponse req) res (plugins this)),
                responseHookCalls (plugins this))) \<and>
      handle this req =
        bind (catch (pipelineResponse this req) (\<lambda>err. handleError this err req))
          (\<lambda>r0. (Inr (Some (foldl (threadResponse req) r0 (plugins this))),
                  responseHookCalls (plugins this))))"
proof (intro conjI impI allI)
  show "handleTry this req = bind (pipelineResponse this req) (respond this req)"
    by (rule handleTry_factor)
  show "handle this req =
     catch (bind (pipelineResponse this req) (respond this req))
       (\<lambda>err. bind (handleError this err req) (respond this req))"
    by (rule handle_unfold)
next
  fix res
  assume "responseHooksReturn (plugins this) req"
  then show "runPluginResponseHook (plugins this) req res =
               (Inr (foldl (threadResponse req) res (plugins this)),
                responseHookCalls (plugins this))"
    by (rule runPluginResponseHook_closed)
next
  assume a: "responseHooksReturn (plugins this) req"
  have r: "respond this req =
             (\<lambda>r0. (Inr (Some (foldl (threadResponse req) r0 (plugins this))),
                     responseHookCalls (plugins this)))"
    by (rule ext) (simp add: respond_def runPluginResponseHook_closed[OF a] ret_def)
  have tot: "\<And>x. \<exists>y t. respond this req x = (Inr y, t)"
    by (simp add: r)
  have "handle this req =
          bind (catch (pipelineResponse this req) (\<lambda>err. handleError this err req))
            (respond this req)"
    unfolding handle_unfold by (rule catch_bind_total[OF tot])
  then show "handle this req =
        bind (catch (pipelineResponse this req) (\<lambda>err. handleError this err req))
          (\<lambda>r0. (Inr (Some (foldl (threadResponse req) r0 (plugins this))),
                  responseHookCalls (plugins this)))"
    by (simp only: r)
qed





subsection \<open>The theorems on the router with three tiers\<close>

lemma tiered_plugins: "plugins tieredRouter = [stampPlugin ''first'', stampPlugin ''second'']"
  by (simp add: tieredRouter_def Let_def registerPlugin_def newRouter_def use_def
        addRoute_def stampPlugin_def ret_def)

lemma tiered_global:
  "globalMws tieredRouter =
     [gate ''global log'' ''/never'' 500] @ gate ''global gate'' ''/blocked'' 401 #
     [gate ''global after'' ''/blocked'' 500]"
  by (simp add: tieredRouter_def Let_def registerPlugin_def newRouter_def use_def
        addRoute_def stampPlugin_def ret_def)

lemma tiered_path:
  "pathMws tieredRouter =
     [(''/api'', [gate ''api log'' ''/never'' 500, gate ''api gate'' ''/api/secret'' 403,
                  gate ''api after'' ''/api/secret'' 500])]"
  by (simp add: tieredRouter_def Let_def registerPlugin_def newRouter_def use_def
        addRoute_def stampPlugin_def ret_def)

lemma tiered_routes:
  "routes tieredRouter =
     [\<lparr>routePath = ''/api/data'', routeMethod = ''GET'',
       routeHandler = RunAuth gatedOpts protectedHandler,
       routeMiddleware = middleware gatedOpts\<rparr>]"
  by (simp add: tieredRouter_def Let_def registerPlugin_def newRouter_def use_def
        addRoute_def stampPlugin_def ret_def)

lemma tiered_onRequest:
  "runPluginHook onRequest id OnRequest (plugins tieredRouter) req = (Inr None, [])"
  by (simp add: tiered_plugins stampPlugin_def ret_def)

lemma tiered_stamps:
  "runPluginResponseHook (plugins tieredRouter) req res =
     (Inr (stamped res), [PluginHook ''first'' OnResponse, PluginHook ''second'' OnResponse])"
  by (simp add: tiered_plugins stampPlugin_def ret_def call_def stamped_def)

lemma tiered_chain_api:
  "reqPathname req = ''/api/secret'' \<or> reqPathname req = ''/api/data'' \<or>
   reqPathname req = ''/api/other'' \<Longrightarrow>
   pathChain (pathMws tieredRouter) (reqPathname req) =
     [gate ''api log'' ''/never'' 500] @ gate ''api gate'' ''/api/secret'' 403 #
     [gate ''api after'' ''/api/secret'' 500]"
  by (auto simp: tiered_path pathChain_def startsWith_def)

lemma tiered_match_data:
  "matchRouteHandler (routes tieredRouter) ''GET'' ''/api/data'' =
     Some (\<lparr>routePath = ''/api/data'', routeMethod = ''GET'',
             routeHandler = RunAuth gatedOpts protectedHandler,
             routeMiddleware = middleware gatedOpts\<rparr>, [])"
proof -
  have "matchRoute ''/api/data'' ''/api/data'' = Some []"
    by code_simp
  then show ?thesis
    by (simp add: tiered_routes)
qed


text \<open>
  Claim C7 on \<open>GET /blocked\<close> (ended by the second global middleware),
  \<open>GET /api/secret\<close> (ended by the second middleware of \<open>/api\<close>) and \<open>GET /api/data\<close>
  (ended by the second middleware of the route).
\<close>

theorem middleware_short_circuit_witness:
  "runPluginHook onRequest id OnRequest (plugins tieredRouter) (getRequest ''/blocked'') =
     (Inr None, []) \<and>
   globalMws tieredRouter =
     [gate ''global log'' ''/never'' 500] @ gate ''global gate'' ''/blocked'' 401 #
     [gate ''global after'' ''/blocked'' 500] \<and>
   list_all (passes (getRequest ''/blocked'')) [gate ''global log'' ''/never'' 500] \<and>
   terminates (getRequest ''/blocked'') (gate ''global gate'' ''/blocked'' 401)
     (textResponse 401 ''global gate'') \<and>
   handle tieredRouter (getRequest ''/blocked'') =
     (Inr (Some (stamped (textResponse 401 ''global gate''))),
      [MwCall ''global log'', MwCall ''global gate'',
       PluginHook ''first'' OnResponse, PluginHook ''second'' OnResponse]) \<and>
   list_all (passes (getRequest ''/api/secret'')) (globalMws tieredRouter) \<and>
   pathChain (pathMws tieredRouter) (reqPathname (getRequest ''/api/secret'')) =
     [gate ''api log'' ''/never'' 500] @ gate ''api gate'' ''/api/secret'' 403 #
     [gate ''api after'' ''/api/secret'' 500] \<and>
   terminates (getRequest ''/api/secret'') (gate ''api gate'' ''/api/secret'' 403)
     (textResponse 403 ''api gate'') \<and>
   handle tieredRouter (getRequest ''/api/secret'') =
     (Inr (Some (stamped (textResponse 403 ''api gate''))),
      [MwCall ''global log'', MwCall ''global gate'', MwCall ''global after'',
       MwCall ''api log'', MwCall ''api gate'',
       PluginHook ''first'' OnResponse, PluginHook ''second'' OnResponse]) \<and>
   list_all (passes (getRequest ''/api/data''))
     (pathChain (pathMws tieredRouter) (reqPathname (getRequest ''/api/data''))) \<and>
   terminates (getRequest ''/api/data'') (gate ''route gate'' ''/api/data'' 429)
     (textResponse 429 ''route gate'') \<and>
   handle tieredRouter (getRequest ''/api/data'') =
     (Inr (Some (stamped (textResponse 429 ''route gate''))),
      [MwCall ''global log'', MwCall ''global gate'', MwCall ''global after'',
       MwCall ''api log'', MwCall ''api gate'', MwCall ''api after'', RouteLookup,
       MwCall ''route log'', MwCall ''route gate'',
       PluginHook ''first'' OnResponse, PluginHook ''second'' OnResponse])"
proof -
  let ?stamps = "[PluginHook ''first'' OnResponse, PluginHook ''second'' OnResponse]"
  \<comment> \<open>the global tier\<close>
  let ?req = "getRequest ''/blocked''"
  let ?pre = "[gate ''global log'' ''/never'' 500]"
  let ?mw = "gate ''global gate'' ''/blocked'' 401"
  let ?post = "[gate ''global after'' ''/blocked'' 500]"
  let ?r = "textResponse 401 ''global gate''"
  have h0: "runPluginHook onRequest id OnRequest (plugins tieredRouter) ?req = (Inr None, [])"
    by (rule tiered_onRequest)
  have g: "globalMws tieredRouter = ?pre @ ?mw # ?post"
    by (rule tiered_global)
  have p: "\<forall>m \<in> set ?pre. passes ?req m"
    by (simp add: passes_def gate_def getRequest_def)
  have t: "terminates ?req ?mw ?r"
    by (simp add: terminates_def gate_def getRequest_def)
  from middleware_short_circuit[OF h0, of ?pre ?mw ?post ?r] g p t
  have "finishedWith tieredRouter ?req ?r ([] @ mwCalls (?pre @ [?mw]))"
    by blast
  then have "handle tieredRouter ?req =
     (Inr (Some (stamped ?r)), ([] @ mwCalls (?pre @ [?mw])) @ ?stamps)"
    unfolding finishedWith_def using tiered_stamps[of ?req ?r] by blast
  then have c1: "handle tieredRouter ?req =
     (Inr (Some (stamped ?r)), [MwCall ''global log'', MwCall ''global gate''] @ ?stamps)"
    by (simp add: mwCalls_def gate_def)
  \<comment> \<open>the path tier\<close>
  let ?req2 = "getRequest ''/api/secret''"
  let ?pre2 = "[gate ''api log'' ''/never'' 500]"
  let ?mw2 = "gate ''api gate'' ''/api/secret'' 403"
  let ?post2 = "[gate ''api after'' ''/api/secret'' 500]"
  let ?r2 = "textResponse 403 ''api gate''"
  have h2: "runPluginHook onRequest id OnRequest (plugins tieredRouter) ?req2 = (Inr None, [])"
    by (rule tiered_onRequest)
  have g2: "\<forall>m \<in> set (globalMws tieredRouter). passes ?req2 m"
    by (simp add: tiered_global passes_def gate_def getRequest_def)
  have pc2: "pathChain (pathMws tieredRouter) (reqPathname ?req2) = ?pre2 @ ?mw2 # ?post2"
    by (rule tiered_chain_api) (simp add: getRequest_def)
  have p2: "\<forall>m \<in> set ?pre2. passes ?req2 m"
    by (simp add: passes_def gate_def getRequest_def)
  have t2: "terminates ?req2 ?mw2 ?r2"
    by (simp add: terminates_def gate_def getRequest_def)
  from middleware_short_circuit[OF h2, of ?pre2 ?mw2 ?post2 ?r2] g2 pc2 p2 t2
  have "finishedWith tieredRouter ?req2 ?r2
          ([] @ mwCalls (globalMws tieredRouter) @ mwCalls (?pre2 @ [?mw2]))"
    by blast
  then have "handle tieredRouter ?req2 =
     (Inr (Some (stamped ?r2)),
      ([] @ mwCalls (globalMws tieredRouter) @ mwCalls (?pre2 @ [?mw2])) @ ?stamps)"
    unfolding finishedWith_def using tiered_stamps[of ?req2 ?r2] by blast
  then have c2: "handle tieredRouter ?req2 =
     (Inr (Some (stamped ?r2)),
      [MwCall ''global log'', MwCall ''global gate'', MwCall ''global after'',
       MwCall ''api log'', MwCall ''api gate''] @ ?stamps)"
    by (simp add: mwCalls_def gate_def tiered_global)
  \<comment> \<open>the route tier\<close>
  let ?req3 = "getRequest ''/api/data''"
  let ?rte = "\<lparr>routePath = ''/api/data'', routeMethod = ''GET'',
                routeHandler = RunAuth gatedOpts protectedHandler,
                routeMiddleware = middleware gatedOpts\<rparr>"
  let ?pre3 = "[gate ''route log'' ''/never'' 500]"
  let ?mw3 = "gate ''route gate'' ''/api/data'' 429"
  let ?post3 = "[gate ''route after'' ''/api/data'' 500]"
  let ?r3 = "textResponse 429 ''route gate''"
  have h3: "runPluginHook onRequest id OnRequest (plugins tieredRouter) ?req3 = (Inr None, [])"
    by (rule tiered_onRequest)
  have g3: "\<forall>m \<in> set (globalMws tieredRouter). passes ?req3 m"
    by (simp add: tiered_global passes_def gate_def getRequest_def)
  have pc3: "pathChain (pathMws tieredRouter) (reqPathname ?req3) =
               [gate ''api log'' ''/never'' 500] @ gate ''api gate'' ''/api/secret'' 403 #
               [gate ''api after'' ''/api/secret'' 500]"
    by (rule tiered_chain_api) (simp add: getRequest_def)
  have pp3: "\<forall>m \<in> set (pathChain (pathMws tieredRouter) (reqPathname ?req3)). passes ?req3 m"
    unfolding pc3 by (simp add: passes_def gate_def getRequest_def)
  have m3: "matchRouteHandler (routes tieredRouter) (reqMethod ?req3) (reqPathname ?req3) =
              Some (?rte, [])"
    using tiered_match_data by (simp add: getRequest_def)
  have rc3: "routeChain ?rte = ?pre3 @ ?mw3 # ?post3"
    by (simp add: routeChain_def gatedOpts_def)
  have p3: "\<forall>m \<in> set ?pre3. passes ?req3 m"
    by (simp add: passes_def gate_def getRequest_def)
  have t3: "terminates ?req3 ?mw3 ?r3"
    by (simp add: terminates_def gate_def getRequest_def)
  from middleware_short_circuit[OF h3, of ?pre3 ?mw3 ?post3 ?r3 ?rte "[]"]
       g3 pp3 m3 rc3 p3 t3
  have "finishedWith tieredRouter ?req3 ?r3
          ([] @ mwCalls (globalMws tieredRouter) @
           mwCalls (pathChain (pathMws tieredRouter) (reqPathname ?req3)) @
           [RouteLookup] @ mwCalls (?pre3 @ [?mw3]))"
    by blast
  then have "handle tieredRouter ?req3 =
     (Inr (Some (stamped ?r3)),
      ([] @ mwCalls (globalMws tieredRouter) @
           mwCalls (pathChain (pathMws tieredRouter) (reqPathname ?req3)) @
           [RouteLookup] @ mwCalls (?pre3 @ [?mw3])) @ ?stamps)"
    unfolding finishedWith_def using tiered_stamps[of ?req3 ?r3] by blast
  then have c3: "handle tieredRouter ?req3 =
     (Inr (Some (stamped ?r3)),
      [MwCall ''global log'', MwCall ''global gate'', MwCall ''global after'',
       MwCall ''api log'', MwCall ''api gate'', MwCall ''api after'', RouteLookup,
       MwCall ''route log'', MwCall ''route gate''] @ ?stamps)"
    unfolding pc3 by (simp add: mwCalls_def gate_def tiered_global)
  from h0 g p t c1 g2 pc2 t2 c2 pp3 t3 c3 show ?thesis
    by (simp add: list_all_iff)
qed


text \<open>Claim C8 on \<open>GET /api/other\<close>, which no route matches.\<close>

theorem response_hooks_run_for_every_outcome_witness:
  "responseHooksReturn (plugins tieredRouter) (getRequest ''/api/other'') \<and>
   runPluginResponseHook (plugins tieredRouter) (getRequest ''/api/other'') notFoundRes =
     (Inr (foldl (threadResponse (getRequest ''/api/other'')) notFoundRes (plugins tieredRouter)),
      responseHookCalls (plugins tieredRouter)) \<and>
   foldl (threadResponse (getRequest ''/api/other'')) notFoundRes (plugins tieredRouter) =
     stamped notFoundRes \<and>
   responseHookCalls (plugins tieredRouter) =
     [PluginHook ''first'' OnResponse, PluginHook ''second'' OnResponse] \<and>
   handle tieredRouter (getRequest ''/api/other'') =
     bind (catch (pipelineResponse tieredRouter (getRequest ''/api/other''))
             (\<lambda>err. handleError tieredRouter err (getRequest ''/api/other'')))
       (\<lambda>r0. (Inr (Some (foldl (threadResponse (getRequest ''/api/other'')) r0
                             (plugins tieredRouter))),
               responseHookCalls (plugins tieredRouter)))"
proof -
  let ?req = "getRequest ''/api/other''"
  have a: "responseHooksReturn (plugins tieredRouter) ?req"
    by (simp add: tiered_plugins responseHooksReturn_def stampPlugin_def)
  note inst = response_hooks_run_for_every_outcome[of tieredRouter ?req]
  from inst a have b: "runPluginResponseHook (plugins tieredRouter) ?req notFoundRes =
     (Inr (foldl (threadResponse ?req) notFoundRes (plugins tieredRouter)),
      responseHookCalls (plugins tieredRouter))"
    by blast
  from inst a have c: "handle tieredRouter ?req =
     bind (catch (pipelineResponse tieredRouter ?req) (\<lambda>err. handleError tieredRouter err ?req))
       (\<lambda>r0. (Inr (Some (foldl (threadResponse ?req) r0 (plugins tieredRouter))),
               responseHookCalls (plugins tieredRouter)))"
    by blast
  have d: "foldl (threadResponse ?req) notFoundRes (plugins tieredRouter) = stamped notFoundRes"
    by (simp add: tiered_plugins stampPlugin_def stamped_def)
  have e: "responseHookCalls (plugins tieredRouter) =
     [PluginHook ''first'' OnResponse, PluginHook ''second'' OnResponse]"
    by (simp add: tiered_plugins stampPlugin_def responseHookCalls_def)
  from a b c d e show ?thesis by (intro conjI)
qed


section \<open>The earlier copies\<close>

text \<open>
  The earlier \<open>validateRequest\<close> reads the body of the request itself, so a later stage
  finds it used; and a params validator that throws something other than a \<open>ZodError\<close>
  leaves no entry: the facet counts as passed, with no parsed value.
\<close>

lemma validateRequest_zod_reads_request:
  assumes "zodBody s = Some v" and "\<not> reqBodyUsed req" and "reqBody req = Some t"
  shows "reqBodyUsed (snd (validateRequest_zod req params (Some s))) \<and>
         fst (readText (snd (validateRequest_zod req params (Some s)))) =
           Inl (Error ''Body already used'')"
  using assms
  by (simp add: validateRequest_zod_def Let_def readJson_def readText_def consumed_def
        split: prod.splits option.splits sum.splits zodThrown.splits)

lemma validateRequest_zod_drops_other_errors:
  assumes "zodParams s = Some v" and "v (recordJson params) = Inl (OtherThrown e)"
    and "zodQuery s = None" and "zodHeaders s = None" and "zodBody s = None"
  shows "fst (validateRequest_zod req params (Some s)) =
           Inr \<lparr>parsedParams = None,
                parsedQuery = Some (recordJson (fromEntries (reqSearchParams req))),
                parsedHeaders = Some (recordJson (fromEntries (reqHeaders req))),
                parsedBody = None\<rparr>"
  using assms
  by (simp add: validateRequest_zod_def Let_def zodFacet_def)

text \<open>
  \<open>addRoute\<close> of router.ts stores the config and the handler it was called with,
  whatever the before-route-register hooks returned (or nothing, when a hook throws).
\<close>

lemma addRoute_stores_original:
  "routes (snd (addRoute this method path opts h)) = routes this \<or>
   routes (snd (addRoute this method path opts h)) =
     routes this @ [\<lparr>routePath = path, routeMethod = method, routeHandler = RunAuth opts h,
                     routeMiddleware = middleware opts\<rparr>]"
  by (simp add: addRoute_def Let_def split: prod.splits sum.splits)

end
